theory Spec2Isabelle
  imports Complex_Main "HOL-Library.AList"
begin

section \<open>Common values\<close>

text \<open>
  Python floats are read as real numbers, Python ints as integers. Exceptions are values:
  a function that can raise returns \<open>error + 'a\<close>, and a method that mutates its object
  before raising returns the object together with \<open>error option\<close>.
\<close>

datatype error = ValueError | AttributeError | PhysicsError | ZeroDivisionError
  | IndexError | KeyError

type_synonym vec3 = "real \<times> real \<times> real"

text \<open>\<open>np.clip(x, lo, hi)\<close> is \<open>minimum(maximum(x, lo), hi)\<close>.\<close>

definition clip :: "real \<Rightarrow> real \<Rightarrow> real \<Rightarrow> real" where
  "clip x lo hi = min (max x lo) hi"

definition vec_norm :: "vec3 \<Rightarrow> real" where
  "vec_norm v = (case v of (x, y, z) \<Rightarrow> sqrt (x * x + y * y + z * z))"

section \<open>Vehicle model (laser\_vehicle.py)\<close>

text \<open>
  The fields of \<open>LaserVehicle\<close> that the drive command reads. \<open>vehicle_size\<close> is
  \<open>self.size = (length, width, height)\<close>.
\<close>

record laser_vehicle =
  vehicle_id :: int
  vehicle_size :: vec3
  max_velocity :: real
  max_angular_velocity :: real
  max_acceleration :: real
  laser_max_distance :: real
  veh_opponent_id :: "int option"

text \<open>\<open>LaserVehicle.__init__\<close>: the physical limits are fixed constants.\<close>

definition LaserVehicle_init :: "int \<Rightarrow> vec3 \<Rightarrow> laser_vehicle" where
  "LaserVehicle_init body sz =
     \<lparr> vehicle_id = body, vehicle_size = sz, max_velocity = 2,
       max_angular_velocity = pi * 1.5, max_acceleration = 2.5,
       laser_max_distance = 5, veh_opponent_id = None \<rparr>"

text \<open>\<open>LaserVehicle.set_difficulty\<close> rescales the limits.\<close>

definition vehicle_set_difficulty :: "laser_vehicle \<Rightarrow> real \<Rightarrow> laser_vehicle" where
  "vehicle_set_difficulty v difficulty =
     v\<lparr> max_velocity := 2 + difficulty,
        max_angular_velocity := pi * (1.5 + 0.5 * difficulty),
        max_acceleration := 2.5 + difficulty \<rparr>"

text \<open>The arguments of the engine call \<open>p.resetBaseVelocity\<close>.\<close>

record velocity_command =
  linearVelocity :: vec3
  angularVelocity :: vec3

text \<open>
  \<open>LaserVehicle.apply_action\<close>. The action is a sequence of floats; \<open>yaw\<close> is the heading
  the engine reports for the body. A sequence whose length is not 2 raises \<open>ValueError\<close>
  before anything is commanded. The laser emission and the heading indicator that follow
  the command only draw debug lines and update laser bookkeeping; they do not change
  the command.
  The arithmetic is exact here: the command holds the real numbers of which the code
  computes rounded floats, and for a vehicle of width 0, where the code divides by a
  float zero and gets an infinity or a NaN, the command holds HOL's \<open>x / 0 = 0\<close>. The
  episode controller uses this function only to know whether the call raises.
\<close>

definition apply_action :: "laser_vehicle \<Rightarrow> real \<Rightarrow> real list \<Rightarrow> error + velocity_command" where
  "apply_action v yaw action =
     (if length action \<noteq> 2 then Inl ValueError
      else
        let left_wheel_vel = clip (action ! 0) (- 1) 1 * max_velocity v;
            right_wheel_vel = clip (action ! 1) (- 1) 1 * max_velocity v;
            linear_vel = (left_wheel_vel + right_wheel_vel) / 2;
            angular_vel = (right_wheel_vel - left_wheel_vel)
                            / (fst (snd (vehicle_size v)) * 1.1);
            angular_vel = clip angular_vel (- max_angular_velocity v) (max_angular_velocity v);
            vel_x = linear_vel * cos yaw;
            vel_y = linear_vel * sin yaw
        in Inr \<lparr> linearVelocity = (vel_x, vel_y, 0),
                 angularVelocity = (0, 0, angular_vel) \<rparr>)"

section \<open>Curriculum manager (curriculum\_learning.py)\<close>

text \<open>
  The numeric entries of \<open>CurriculumManager.config\<close>. The stage names and the stage
  parameter table are the six fixed entries of the source.
\<close>

record curriculum_config =
  promotion_threshold :: real
  demotion_threshold :: real
  promotion_window :: int
  demotion_window :: int
  initial_stage :: int
  max_stage :: int

definition default_config :: curriculum_config where
  "default_config =
     \<lparr> promotion_threshold = 0.75, demotion_threshold = 0.40,
       promotion_window = 10, demotion_window = 5,
       initial_stage = 1, max_stage = 6 \<rparr>"

text \<open>
  \<open>win_history\<close> is a \<open>deque\<close> with a \<open>maxlen\<close>; its items are kept oldest first and
  \<open>win_history_maxlen\<close> is the bound fixed at construction.
\<close>

record curriculum_manager =
  config :: curriculum_config
  current_stage :: int
  win_history :: "int list"
  win_history_maxlen :: nat

text \<open>\<open>CurriculumManager.__init__\<close>: \<open>deque(maxlen=n)\<close> raises for a negative \<open>n\<close>.\<close>

definition CurriculumManager_init :: "curriculum_config \<Rightarrow> error + curriculum_manager" where
  "CurriculumManager_init c =
     (let n = max (promotion_window c) (demotion_window c)
      in if n < 0 then Inl ValueError
         else Inr \<lparr> config = c, current_stage = initial_stage c,
                    win_history = [], win_history_maxlen = nat n \<rparr>)"

text \<open>\<open>deque.append\<close> on a bounded deque drops from the left once the bound is passed.\<close>

definition deque_append :: "nat \<Rightarrow> 'a list \<Rightarrow> 'a \<Rightarrow> 'a list" where
  "deque_append maxlen xs x = (let ys = xs @ [x] in drop (length ys - maxlen) ys)"

text \<open>Python's \<open>xs[k:]\<close> for an integer \<open>k\<close> of either sign.\<close>

definition py_slice_from :: "int \<Rightarrow> 'a list \<Rightarrow> 'a list" where
  "py_slice_from k xs =
     (if k < 0 then drop (nat (int (length xs) + k)) xs else drop (nat k) xs)"

text \<open>\<open>sum(recent_wins) / len(recent_wins)\<close>, which raises on an empty list.\<close>

definition win_rate :: "int list \<Rightarrow> error + real" where
  "win_rate recent_wins =
     (if recent_wins = [] then Inl ZeroDivisionError
      else Inr (real_of_int (sum_list recent_wins) / real (length recent_wins)))"

text \<open>
  What can raise after a stage change: the name lookup \<open>stage_names[stage - 1]\<close> in a
  list of six names, and the table lookup \<open>stage_params[stage]\<close> with keys 1 to 6 at the
  start of \<open>setup_environment\<close>. Everything else \<open>setup_environment\<close> does is done to the
  arena and the engine, not to the manager.
\<close>

definition stage_change_error :: "int \<Rightarrow> error option" where
  "stage_change_error stage =
     (if \<not> (- 6 \<le> stage - 1 \<and> stage - 1 < 6) then Some IndexError
      else if \<not> (1 \<le> stage \<and> stage \<le> 6) then Some KeyError
      else None)"

definition promote :: "curriculum_manager \<Rightarrow> curriculum_manager \<times> error option" where
  "promote m =
     (if current_stage m < max_stage (config m)
      then (let m' = m\<lparr> current_stage := current_stage m + 1, win_history := [] \<rparr>
            in (m', stage_change_error (current_stage m')))
      else (m, None))"

definition demote :: "curriculum_manager \<Rightarrow> curriculum_manager \<times> error option" where
  "demote m =
     (if current_stage m > 1
      then (let m' = m\<lparr> current_stage := current_stage m - 1, win_history := [] \<rparr>
            in (m', stage_change_error (current_stage m')))
      else (m, None))"

text \<open>\<open>CurriculumManager._check_for_promotion_or_demotion\<close>.\<close>

definition check_for_promotion_or_demotion ::
    "curriculum_manager \<Rightarrow> curriculum_manager \<times> error option" where
  "check_for_promotion_or_demotion m =
     (let c = config m; h = win_history m; n = int (length h)
      in if n < min (promotion_window c) (demotion_window c) then (m, None)
         else
           (case (if n \<ge> promotion_window c
                  then map_sum id (\<lambda>rate. rate \<ge> promotion_threshold c)
                         (win_rate (py_slice_from (- promotion_window c) h))
                  else Inr False) of
              Inl e \<Rightarrow> (m, Some e)
            | Inr True \<Rightarrow> promote m
            | Inr False \<Rightarrow>
                (case (if n \<ge> demotion_window c
                       then map_sum id (\<lambda>rate. rate \<le> demotion_threshold c)
                              (win_rate (py_slice_from (- demotion_window c) h))
                       else Inr False) of
                   Inl e \<Rightarrow> (m, Some e)
                 | Inr True \<Rightarrow> demote m
                 | Inr False \<Rightarrow> (m, None))))"

text \<open>\<open>CurriculumManager.record_outcome\<close>.\<close>

definition record_outcome :: "curriculum_manager \<Rightarrow> bool \<Rightarrow> curriculum_manager \<times> error option" where
  "record_outcome m win =
     check_for_promotion_or_demotion
       (m\<lparr> win_history :=
             deque_append (win_history_maxlen m) (win_history m) (if win then 1 else 0) \<rparr>)"

text \<open>
  Feeding a sequence of outcomes, one call each; an exception ends the run, as it would
  end the caller's loop.
\<close>

fun record_outcomes :: "curriculum_manager \<Rightarrow> bool list \<Rightarrow> curriculum_manager \<times> error option" where
  "record_outcomes m [] = (m, None)"
| "record_outcomes m (w # ws) =
     (case record_outcome m w of
        (m', Some e) \<Rightarrow> (m', Some e)
      | (m', None) \<Rightarrow> record_outcomes m' ws)"

text \<open>
  The manager that \<open>CurriculumManager(arena)\<close> builds with the default configuration, and
  the state it is in after 59 wins in a row: stage 6, nine wins recorded since the last
  promotion.
\<close>

definition initial_manager :: curriculum_manager where
  "initial_manager =
     \<lparr> config = default_config, current_stage = 1, win_history = [],
       win_history_maxlen = 10 \<rparr>"

definition top_stage_manager :: curriculum_manager where
  "top_stage_manager =
     \<lparr> config = default_config, current_stage = 6,
       win_history = [1, 1, 1, 1, 1, 1, 1, 1, 1], win_history_maxlen = 10 \<rparr>"

text \<open>What every manager with the default configuration satisfies.\<close>

definition default_manager_ok :: "curriculum_manager \<Rightarrow> bool" where
  "default_manager_ok m =
     (config m = default_config \<and> win_history_maxlen m = 10
      \<and> 1 \<le> current_stage m \<and> current_stage m \<le> 6)"

section \<open>Angles\<close>

text \<open>
  \<open>np.arctan2(y, x)\<close>: the angle of the point \<open>(x, y)\<close> in \<open>(-pi, pi]\<close>, and 0 at the
  origin.
\<close>

definition arctan2 :: "real \<Rightarrow> real \<Rightarrow> real" where
  "arctan2 y x =
     (if x > 0 then arctan (y / x)
      else if x < 0 \<and> y \<ge> 0 then arctan (y / x) + pi
      else if x < 0 \<and> y < 0 then arctan (y / x) - pi
      else if y > 0 then pi / 2
      else if y < 0 then - (pi / 2)
      else 0)"

text \<open>
  The two loops that bring an angle back into range:
  \<^verbatim>\<open>
  while relative_angle > np.pi:  relative_angle -= 2 * np.pi
  while relative_angle < -np.pi: relative_angle += 2 * np.pi
  \<close>
\<close>

function wrap_above :: "real \<Rightarrow> real" where
  "wrap_above a = (if a > pi then wrap_above (a - 2 * pi) else a)"
  by pat_completeness auto
termination
proof (relation "measure (\<lambda>a. nat \<lceil>(a - pi) / (2 * pi)\<rceil>)")
  show "wf (measure (\<lambda>a. nat \<lceil>(a - pi) / (2 * pi)\<rceil>))" by simp
next
  fix a :: real
  assume gt: "a > pi"
  have "(a - 2 * pi - pi) / (2 * pi) = (a - pi) / (2 * pi) - 1"
    by (simp add: field_simps)
  then have step: "\<lceil>(a - 2 * pi - pi) / (2 * pi)\<rceil> = \<lceil>(a - pi) / (2 * pi)\<rceil> - 1"
    by (simp only: ceiling_diff_one)
  have "0 < (a - pi) / (2 * pi)" using gt by simp
  then have "0 < \<lceil>(a - pi) / (2 * pi)\<rceil>" by (simp add: ceiling_less_iff)
  then have "nat \<lceil>(a - 2 * pi - pi) / (2 * pi)\<rceil> < nat \<lceil>(a - pi) / (2 * pi)\<rceil>"
    unfolding step by linarith
  then show "(a - 2 * pi, a) \<in> measure (\<lambda>a. nat \<lceil>(a - pi) / (2 * pi)\<rceil>)"
    by (simp only: in_measure)
qed

function wrap_below :: "real \<Rightarrow> real" where
  "wrap_below a = (if a < - pi then wrap_below (a + 2 * pi) else a)"
  by pat_completeness auto
termination
proof (relation "measure (\<lambda>a. nat \<lceil>(- pi - a) / (2 * pi)\<rceil>)")
  show "wf (measure (\<lambda>a. nat \<lceil>(- pi - a) / (2 * pi)\<rceil>))" by simp
next
  fix a :: real
  assume lt: "a < - pi"
  have "(- pi - (a + 2 * pi)) / (2 * pi) = (- pi - a) / (2 * pi) - 1"
    by (simp add: field_simps)
  then have step: "\<lceil>(- pi - (a + 2 * pi)) / (2 * pi)\<rceil> = \<lceil>(- pi - a) / (2 * pi)\<rceil> - 1"
    by (simp only: ceiling_diff_one)
  have "0 < (- pi - a) / (2 * pi)" using lt by simp
  then have "0 < \<lceil>(- pi - a) / (2 * pi)\<rceil>" by (simp add: ceiling_less_iff)
  then have "nat \<lceil>(- pi - (a + 2 * pi)) / (2 * pi)\<rceil> < nat \<lceil>(- pi - a) / (2 * pi)\<rceil>"
    unfolding step by linarith
  then show "(a + 2 * pi, a) \<in> measure (\<lambda>a. nat \<lceil>(- pi - a) / (2 * pi)\<rceil>)"
    by (simp only: in_measure)
qed

declare wrap_above.simps [simp del]
declare wrap_below.simps [simp del]

definition normalize_angle :: "real \<Rightarrow> real" where
  "normalize_angle a = wrap_below (wrap_above a)"

definition planar_distance :: "real \<Rightarrow> real \<Rightarrow> real" where
  "planar_distance dx dy = sqrt (dx * dx + dy * dy)"

text \<open>Python's \<open>int(x)\<close> on a float truncates towards zero.\<close>

definition py_int :: "real \<Rightarrow> int" where
  "py_int x = (if x \<ge> 0 then \<lfloor>x\<rfloor> else \<lceil>x\<rceil>)"

section \<open>The physics engine as seen by the primary vehicle\<close>

text \<open>
  The engine is an external collaborator. One \<open>engine\<close> value holds the answers it gives
  to the queries about the primary vehicle between two simulation ticks: pose, velocities,
  number of contact points, the result of each of the 16 scan rays (hit body and hit
  fraction) and the body hit by the ray cast along the heading (\<open>-1\<close> for none). A
  query to an engine that is not connected raises.
\<close>

record engine =
  is_connected :: bool
  base_position :: vec3
  base_orientation :: vec3
  base_velocity :: vec3
  base_angular_velocity :: vec3
  contact_points :: nat
  scan_ray :: "nat \<Rightarrow> int \<times> real"
  forward_ray :: int

definition get_position_and_orientation :: "engine \<Rightarrow> error + vec3 \<times> vec3" where
  "get_position_and_orientation e =
     (if is_connected e then Inr (base_position e, base_orientation e) else Inl PhysicsError)"

definition get_velocity :: "engine \<Rightarrow> error + vec3" where
  "get_velocity e = (if is_connected e then Inr (base_velocity e) else Inl PhysicsError)"

definition get_angular_velocity :: "engine \<Rightarrow> error + vec3" where
  "get_angular_velocity e =
     (if is_connected e then Inr (base_angular_velocity e) else Inl PhysicsError)"

definition check_collision :: "engine \<Rightarrow> error + bool" where
  "check_collision e = (if is_connected e then Inr (contact_points e > 0) else Inl PhysicsError)"

text \<open>
  \<open>LaserVehicle.get_laser_distances\<close>: 16 rays, each reporting the hit fraction times the
  range, or the range when nothing is hit.
\<close>

definition get_laser_distances :: "laser_vehicle \<Rightarrow> engine \<Rightarrow> error + real list" where
  "get_laser_distances v e =
     (if is_connected e
      then Inr (map (\<lambda>i. case scan_ray e i of
                            (body, hit_fraction) \<Rightarrow>
                              if body \<noteq> - 1 then hit_fraction * laser_max_distance v
                              else laser_max_distance v)
                  [0..<16])
      else Inl PhysicsError)"

text \<open>Sequencing of calls that can raise.\<close>

definition and_then :: "error + 'a \<Rightarrow> ('a \<Rightarrow> error + 'b) \<Rightarrow> error + 'b" where
  "and_then r f = (case r of Inl e \<Rightarrow> Inl e | Inr x \<Rightarrow> f x)"

section \<open>Arena (combat\_arena.py)\<close>

text \<open>
  The fields of \<open>CombatArena\<close> that the episode controller reads. \<open>arena_mines\<close> is
  \<open>self.mines\<close> (the ring bodies) and \<open>mine_objects\<close> the yellow mine bodies. Body ids are
  whatever the engine returns: the functions below take \<open>body\<close>, the id returned by the
  \<open>k\<close>-th body creation of the call.
\<close>

record combat_arena =
  vehicle :: "laser_vehicle option"
  arena_mine_positions :: "vec3 list"
  arena_mines :: "int list"
  mine_objects :: "int list"
  arena_half_size :: real
  mine_radius :: real
  mine_height :: real

definition default_mine_positions :: "real \<Rightarrow> vec3 list" where
  "default_mine_positions h = [(- 1, 0, h / 2), (0, 0, h / 2), (1, 0, h / 2)]"

text \<open>
  \<open>CombatArena._create_mines\<close>: per position three bodies are created, the outer ring,
  the inner disc and the mine; the ring and the mine are recorded. \<open>k0\<close> counts the bodies
  created earlier in the same call.
\<close>

definition create_mines :: "(nat \<Rightarrow> int) \<Rightarrow> nat \<Rightarrow> combat_arena \<Rightarrow> combat_arena" where
  "create_mines body k0 a =
     a\<lparr> arena_mines := map (\<lambda>i. body (k0 + 3 * i)) [0..<length (arena_mine_positions a)],
        mine_objects := map (\<lambda>i. body (k0 + 3 * i + 2)) [0..<length (arena_mine_positions a)] \<rparr>"

text \<open>
  \<open>CombatArena.__init__\<close> and \<open>CombatArena.reset\<close>: the plane or ground and the eight
  boundary bodies come first, then the three default mines.
\<close>

definition CombatArena_init :: "(nat \<Rightarrow> int) \<Rightarrow> combat_arena" where
  "CombatArena_init body =
     create_mines body 10
       \<lparr> vehicle = None, arena_mine_positions = default_mine_positions 0.001,
         arena_mines = [], mine_objects = [], arena_half_size = 4 / 2,
         mine_radius = 0.5, mine_height = 0.001 \<rparr>"

definition arena_reset :: "(nat \<Rightarrow> int) \<Rightarrow> combat_arena \<Rightarrow> combat_arena" where
  "arena_reset body a =
     create_mines body 9
       (a\<lparr> arena_mines := [], mine_objects := [], vehicle := None,
           arena_mine_positions := default_mine_positions (mine_height a) \<rparr>)"

text \<open>\<open>CombatArena.add_mine\<close> appends one mine and its position.\<close>

definition add_mine :: "(nat \<Rightarrow> int) \<Rightarrow> vec3 \<Rightarrow> combat_arena \<Rightarrow> combat_arena" where
  "add_mine body pos a =
     a\<lparr> arena_mines := arena_mines a @ [body 0],
        mine_objects := mine_objects a @ [body 2],
        arena_mine_positions := arena_mine_positions a @ [pos] \<rparr>"

text \<open>
  \<open>CombatArena.spawn_vehicle\<close>: the first vehicle spawned after a reset becomes the
  primary one; the id of the new body is returned.
\<close>

definition spawn_vehicle :: "int \<Rightarrow> vec3 \<Rightarrow> combat_arena \<Rightarrow> combat_arena \<times> int" where
  "spawn_vehicle body_id sz a =
     (let v = LaserVehicle_init body_id sz
      in ((if vehicle a = None then a\<lparr> vehicle := Some v \<rparr> else a), vehicle_id v))"

text \<open>Every mine position has its mine body: what the arena's own operations keep.\<close>

definition arena_inv :: "combat_arena \<Rightarrow> bool" where
  "arena_inv a = (length (mine_objects a) = length (arena_mine_positions a))"

section \<open>Episode controller (advanced\_train.py): state\<close>

text \<open>
  The attributes of \<open>AdvancedLaserVehicleEnv\<close> that reset, step, observation, reward and
  termination read or write. An attribute that the source creates on first use and tests
  with \<open>hasattr\<close> is an option that starts as \<open>None\<close>. \<open>lasers\<close> and \<open>history_length\<close> are
  the two entries of \<open>observation_config\<close> that size the observation space.
  \<open>np_random\<close> stands for numpy's global generator: the uniform draws from \<open>[0, 1)\<close>
  it will hand out next. The rendering mode only switches drawing and printing on and
  is left out.
\<close>

record env =
  arena :: combat_arena
  difficulty :: real
  max_steps :: int
  lasers :: nat
  history_length :: nat
  laser_hit :: bool
  continuous_hit_start :: "real option"
  boundary_crossed :: bool
  steps :: int
  terminated :: bool
  truncated :: bool
  laser_hits_count :: int
  opponent_position :: "vec3 option"
  opponent_id :: "int option"
  mine_positions :: "vec3 list"
  episode_reward :: real
  episode_metrics :: "(string \<times> real) list"
  previous_action :: "real list option"
  current_action :: "real list option"
  current_position :: "vec3 option"
  visited_positions :: "(int \<times> int) set option"
  observation_history :: "real list list option"
  np_random :: "nat \<Rightarrow> real"

text \<open>Components of a position or orientation triple: \<open>p[0]\<close>, \<open>p[1]\<close>, \<open>p[2]\<close>.\<close>

definition c0 :: "vec3 \<Rightarrow> real" where "c0 p = fst p"
definition c1 :: "vec3 \<Rightarrow> real" where "c1 p = fst (snd p)"
definition c2 :: "vec3 \<Rightarrow> real" where "c2 p = snd (snd p)"

definition vec_list :: "vec3 \<Rightarrow> real list" where
  "vec_list p = [c0 p, c1 p, c2 p]"

text \<open>The reward breakdown is a dict from names to floats, kept in insertion order.\<close>

definition dict_set :: "(string \<times> real) list \<Rightarrow> string \<Rightarrow> real \<Rightarrow> (string \<times> real) list" where
  "dict_set d k v = AList.update k v d"

definition dict_get :: "(string \<times> real) list \<Rightarrow> string \<Rightarrow> real option" where
  "dict_get d k = map_of d k"

text \<open>\<open>d[k]\<close> for a key that is present; every key read below is in the initial dict.\<close>

definition dict_val :: "(string \<times> real) list \<Rightarrow> string \<Rightarrow> real" where
  "dict_val d k = (case map_of d k of Some v \<Rightarrow> v | None \<Rightarrow> 0)"

definition dict_add :: "(string \<times> real) list \<Rightarrow> string \<Rightarrow> real \<Rightarrow> (string \<times> real) list" where
  "dict_add d k x = dict_set d k (dict_val d k + x)"

definition reward_metrics_keys :: "string list" where
  "reward_metrics_keys =
     [''distance_reward'', ''rotation_reward'', ''collision_reward'', ''laser_reward'',
      ''goal_reward'', ''time_penalty'', ''total_reward'']"

text \<open>The breakdown returned when the reward computation fails.\<close>

definition zero_components :: "(string \<times> real) list" where
  "zero_components = map (\<lambda>key. (key, 0)) reward_metrics_keys"

text \<open>\<open>AdvancedLaserVehicleEnv.__init__\<close>, for the default observation configuration.\<close>

definition AdvancedLaserVehicleEnv_init :: "(nat \<Rightarrow> int) \<Rightarrow> (nat \<Rightarrow> real) \<Rightarrow> real \<Rightarrow> int \<Rightarrow> env" where
  "AdvancedLaserVehicleEnv_init body rng difficulty_arg max_steps_arg =
     \<lparr> arena = CombatArena_init body,
       difficulty = clip difficulty_arg 0.1 1.0,
       max_steps = max_steps_arg,
       lasers = 16,
       history_length = 4,
       laser_hit = False,
       continuous_hit_start = None,
       boundary_crossed = False,
       steps = 0,
       terminated = False,
       truncated = False,
       laser_hits_count = 0,
       opponent_position = None,
       opponent_id = None,
       mine_positions = [],
       episode_reward = 0,
       episode_metrics = map (\<lambda>key. (key, 0)) reward_metrics_keys,
       previous_action = None,
       current_action = None,
       current_position = None,
       visited_positions = None,
       observation_history = None,
       np_random = rng \<rparr>"

text \<open>
  The size of the observation space, \<open>(lasers + 24) * history_length\<close>, and the zero
  vector of that size.
\<close>

definition observation_size :: "env \<Rightarrow> nat" where
  "observation_size s = (lasers s + 24) * history_length s"

definition zero_observation :: "env \<Rightarrow> real list" where
  "zero_observation s = replicate (observation_size s) 0"

section \<open>Observation\<close>

text \<open>
  The search for the nearest mine in \<open>_get_observation\<close>. The minimum starts at infinity,
  so the first mine always replaces it; the loop over the remaining mines carries the
  minimum and the bearing found so far.
\<close>

definition mine_bearing :: "vec3 \<Rightarrow> vec3 \<Rightarrow> vec3 \<Rightarrow> real \<times> real" where
  "mine_bearing position orientation mine_pos =
     (let dx_mine = c0 mine_pos - c0 position;
          dy_mine = c1 mine_pos - c1 position
      in (planar_distance dx_mine dy_mine,
          normalize_angle (arctan2 dy_mine dx_mine - c2 orientation)))"

fun nearest_mine_loop :: "vec3 \<Rightarrow> vec3 \<Rightarrow> vec3 list \<Rightarrow> real \<times> real \<Rightarrow> real \<times> real" where
  "nearest_mine_loop position orientation [] best = best"
| "nearest_mine_loop position orientation (mine_pos # rest) best =
     (let found = mine_bearing position orientation mine_pos
      in if fst found < fst best
         then nearest_mine_loop position orientation rest found
         else nearest_mine_loop position orientation rest best)"

definition mine_info :: "env \<Rightarrow> vec3 \<Rightarrow> vec3 \<Rightarrow> real list" where
  "mine_info s position orientation =
     (case mine_positions s of
        [] \<Rightarrow> [0, 0]
      | mine_pos # rest \<Rightarrow>
          (let best = nearest_mine_loop position orientation rest
                        (mine_bearing position orientation mine_pos)
           in [fst best, snd best]))"

definition opponent_info :: "env \<Rightarrow> vec3 \<Rightarrow> vec3 \<Rightarrow> real list" where
  "opponent_info s position orientation =
     (case opponent_position s of
        None \<Rightarrow> [0, 0, 0, 0]
      | Some opp \<Rightarrow>
          (let dx = c0 opp - c0 position;
               dy = c1 opp - c1 position;
               distance = planar_distance dx dy;
               angle = arctan2 dy dx;
               relative_angle = normalize_angle (angle - c2 orientation)
           in [distance, relative_angle, cos relative_angle, sin relative_angle]))"

definition boundary_info :: "env \<Rightarrow> vec3 \<Rightarrow> real list" where
  "boundary_info s position = [\<bar>c1 position\<bar>, if boundary_crossed s then 1 else 0]"

definition laser_info :: "env \<Rightarrow> real \<Rightarrow> real list" where
  "laser_info s now =
     [if laser_hit s then 1 else 0,
      case continuous_hit_start s of None \<Rightarrow> 0 | Some t0 \<Rightarrow> min (now - t0) 10]"

text \<open>
  The 40 features of the current tick, in the order of the source's \<open>np.concatenate\<close>.
  \<open>now\<close> is the reading of \<open>time.time()\<close>.
\<close>

definition current_observation :: "env \<Rightarrow> laser_vehicle \<Rightarrow> engine \<Rightarrow> real \<Rightarrow> error + real list" where
  "current_observation s v e now =
     and_then (get_laser_distances v e) (\<lambda>laser_distances.
     and_then (get_position_and_orientation e) (\<lambda>(position, orientation).
     and_then (get_velocity e) (\<lambda>velocity.
     and_then (get_angular_velocity e) (\<lambda>angular_velocity.
       Inr (laser_distances @ vec_list position @ vec_list orientation
              @ vec_list velocity @ vec_list angular_velocity
              @ opponent_info s position orientation
              @ boundary_info s position
              @ mine_info s position orientation
              @ laser_info s now
              @ [0, 0])))))"

text \<open>
  \<open>AdvancedLaserVehicleEnv._get_observation\<close>. A missing vehicle and any exception of the
  \<open>try\<close> block give the zero vector. The history is created, filled with copies of the
  first frame, only when the attribute does not exist yet; afterwards each call appends
  one frame. \<open>np.concatenate\<close> of an empty list raises, which is caught as well.
\<close>

definition get_observation :: "env \<Rightarrow> engine \<Rightarrow> real \<Rightarrow> env \<times> real list" where
  "get_observation s e now =
     (case vehicle (arena s) of
        None \<Rightarrow> (s, zero_observation s)
      | Some v \<Rightarrow>
          (case current_observation s v e now of
             Inl err \<Rightarrow> (s, zero_observation s)
           | Inr frame \<Rightarrow>
               (let history = (case observation_history s of
                                 None \<Rightarrow> replicate (history_length s) frame
                               | Some h \<Rightarrow> h);
                    history = deque_append (history_length s) history frame;
                    s' = s\<lparr> observation_history := Some history \<rparr>
                in if history = [] then (s', zero_observation s')
                   else (s', concat history))))"

section \<open>Reward\<close>

text \<open>The second argument of \<open>_compute_reward\<close>: a dict, or anything else.\<close>

datatype info_arg = InfoDict "(string \<times> bool) list" | InfoOther bool

text \<open>
  \<^verbatim>\<open>
  if isinstance(info, dict): laser_hit = info.get('laser_hit', False)
  else:                      laser_hit = False
  \<close>
\<close>

definition info_laser_hit :: "info_arg \<Rightarrow> bool" where
  "info_laser_hit info =
     (case info of
        InfoDict d \<Rightarrow> (case map_of d ''laser_hit'' of Some b \<Rightarrow> b | None \<Rightarrow> False)
      | InfoOther x \<Rightarrow> False)"

definition initial_components :: "(string \<times> real) list" where
  "initial_components =
     [(''survival_reward'', 0.01), (''distance_reward'', 0), (''rotation_reward'', 0),
      (''waypoint_reward'', 0), (''laser_reward'', 0), (''goal_reward'', 0),
      (''mine_penalty'', 0), (''collision_reward'', 0), (''out_of_bounds'', 0),
      (''smooth_reward'', 0), (''exploration_reward'', 0), (''energy_conservation'', 0),
      (''time_penalty'', - 0.005), (''total_reward'', 0)]"

definition reward_out_of_bounds :: "combat_arena \<Rightarrow> vec3 \<Rightarrow> (string \<times> real) list \<Rightarrow> (string \<times> real) list" where
  "reward_out_of_bounds a position rc =
     (if \<bar>c0 position\<bar> > arena_half_size a \<or> \<bar>c1 position\<bar> > arena_half_size a
      then dict_set rc ''out_of_bounds'' (- 5)
      else rc)"

text \<open>
  The loop over the arena's mines; \<open>penalty\<close> is \<open>reward_components['mine_penalty']\<close>,
  the only entry the loop touches. Contact ends the loop (\<open>break\<close>).
\<close>

fun mine_penalty_loop :: "vec3 \<Rightarrow> vec3 list \<Rightarrow> real \<Rightarrow> real" where
  "mine_penalty_loop position [] penalty = penalty"
| "mine_penalty_loop position (mine_pos # rest) penalty =
     (let dx = c0 position - c0 mine_pos;
          dy = c1 position - c1 mine_pos;
          distance_to_mine = planar_distance dx dy
      in if distance_to_mine < 0.075 + 0.15 then - 15
         else if distance_to_mine < 0.075 + 0.3
         then (let close_penalty = - 2 * (1 - (distance_to_mine - 0.075) / 0.3)
               in mine_penalty_loop position rest (min penalty close_penalty))
         else if distance_to_mine < 0.7 \<and> distance_to_mine > 0.3
         then (let avoid_reward = 0.2 * ((distance_to_mine - 0.3) / 0.4)
               in mine_penalty_loop position rest (penalty + avoid_reward))
         else mine_penalty_loop position rest penalty)"

definition reward_mines :: "combat_arena \<Rightarrow> vec3 \<Rightarrow> (string \<times> real) list \<Rightarrow> (string \<times> real) list" where
  "reward_mines a position rc =
     dict_set rc ''mine_penalty''
       (mine_penalty_loop position (arena_mine_positions a) (dict_val rc ''mine_penalty''))"

definition reward_collision :: "bool \<Rightarrow> (string \<times> real) list \<Rightarrow> (string \<times> real) list" where
  "reward_collision collision rc =
     (if collision then dict_set rc ''collision_reward'' (- 5) else rc)"

text \<open>
  Distance and heading towards the opponent, and the bonus for being back near the
  start corner. The environment has no \<open>start_positions\<close> attribute, so the start corner
  is the default one.
\<close>

definition reward_opponent :: "env \<Rightarrow> vec3 \<Rightarrow> vec3 \<Rightarrow> (string \<times> real) list \<Rightarrow> (string \<times> real) list" where
  "reward_opponent s position orientation rc =
     (case opponent_position s of
        None \<Rightarrow> rc
      | Some opp \<Rightarrow>
          (let dx = c0 opp - c0 position;
               dy = c1 opp - c1 position;
               distance = planar_distance dx dy;
               angle = arctan2 dy dx;
               relative_angle = normalize_angle (angle - c2 orientation);
               rc = (if boundary_crossed s
                     then (let ideal_distance = 1;
                               proximity_factor =
                                 (if distance < ideal_distance
                                  then 1 - (ideal_distance - distance) / ideal_distance
                                  else 1 - min 1 ((distance - ideal_distance) / 2))
                           in dict_set rc ''distance_reward'' (0.8 * proximity_factor))
                     else rc);
               rc = (if boundary_crossed s
                     then (let alignment = cos relative_angle
                           in dict_set rc ''rotation_reward'' (0.5 * max 0 alignment))
                     else rc);
               start_pos = (- arena_half_size (arena s) + 0.5,
                            - arena_half_size (arena s) + 0.5, 0.1);
               dx_start = c0 position - c0 start_pos;
               dy_start = c1 position - c1 start_pos;
               distance_to_start = planar_distance dx_start dy_start
           in if distance_to_start < 0.5 \<and> steps s > 100
              then dict_add rc ''goal_reward'' 3
              else rc))"

definition reward_waypoint :: "env \<Rightarrow> (string \<times> real) list \<Rightarrow> (string \<times> real) list" where
  "reward_waypoint s rc =
     (if boundary_crossed s then dict_set rc ''waypoint_reward'' 0.3 else rc)"

text \<open>The laser block: base reward, ramp with the hit duration, and the victory bonus.\<close>

definition reward_laser :: "env \<Rightarrow> bool \<Rightarrow> real \<Rightarrow> (string \<times> real) list \<Rightarrow> (string \<times> real) list" where
  "reward_laser s hit now rc =
     (if hit
      then (let rc = dict_set rc ''laser_reward'' 2
            in case continuous_hit_start s of
                 None \<Rightarrow> rc
               | Some t0 \<Rightarrow>
                   (let hit_duration = now - t0;
                        rc = dict_add rc ''laser_reward'' (min 5 (hit_duration * 2))
                    in if hit_duration \<ge> 2 then dict_set rc ''goal_reward'' 50 else rc))
      else rc)"

definition reward_obstacles :: "real list \<Rightarrow> (string \<times> real) list \<Rightarrow> (string \<times> real) list" where
  "reward_obstacles laser_distances rc =
     (let min_laser = (if laser_distances \<noteq> [] then Min (set laser_distances) else 999)
      in if min_laser < 0.3
         then (let obstacle_penalty = - 0.5 * (0.3 - min_laser) / 0.3
               in dict_add rc ''laser_reward'' obstacle_penalty)
         else if laser_distances \<noteq> [] \<and> Min (set laser_distances) > 0.3
         then dict_add rc ''laser_reward'' 0.1
         else rc)"

definition reward_speed :: "real \<Rightarrow> (string \<times> real) list \<Rightarrow> (string \<times> real) list" where
  "reward_speed speed rc =
     (let ideal_speed = 1.5;
          speed_diff = \<bar>speed - ideal_speed\<bar>
      in if speed_diff < 0.5
         then dict_add rc ''smooth_reward'' (0.2 * (1 - speed_diff / 0.5))
         else dict_add rc ''smooth_reward'' (- (0.1 * min 1 ((speed_diff - 0.5) / 1))))"

text \<open>
  \<open>action - self.previous_action\<close> on one-dimensional arrays: equal lengths subtract
  elementwise, a length of one is broadcast, anything else raises.
\<close>

definition np_subtract :: "real list \<Rightarrow> real list \<Rightarrow> error + real list" where
  "np_subtract a b =
     (if length a = length b then Inr (map2 (-) a b)
      else if length a = 1 then Inr (map (\<lambda>y. hd a - y) b)
      else if length b = 1 then Inr (map (\<lambda>x. x - hd b) a)
      else Inl ValueError)"

definition reward_smooth :: "env \<Rightarrow> real list \<Rightarrow> (string \<times> real) list \<Rightarrow> error + (string \<times> real) list" where
  "reward_smooth s action rc =
     (case previous_action s of
        None \<Rightarrow> Inr rc
      | Some prev \<Rightarrow>
          and_then (np_subtract action prev) (\<lambda>diff.
            let action_diff = sum_list (map abs diff);
                smoothness = exp (- action_diff)
            in Inr (dict_add rc ''smooth_reward'' (0.2 * smoothness))))"

definition reward_energy :: "real list \<Rightarrow> (string \<times> real) list \<Rightarrow> (string \<times> real) list" where
  "reward_energy action rc =
     (let energy = sum_list (map (\<lambda>x. x * x) action);
          energy_factor = exp (- energy)
      in dict_set rc ''energy_conservation'' (0.1 * energy_factor))"

text \<open>The exploration block also updates the set of visited grid cells.\<close>

definition reward_exploration ::
    "env \<Rightarrow> vec3 \<Rightarrow> (string \<times> real) list \<Rightarrow> env \<times> (string \<times> real) list" where
  "reward_exploration s position rc =
     (let grid_x = py_int ((c0 position + arena_half_size (arena s)) / 0.2);
          grid_y = py_int ((c1 position + arena_half_size (arena s)) / 0.2);
          grid_pos = (grid_x, grid_y)
      in case visited_positions s of
           Some visited \<Rightarrow>
             (if grid_pos \<notin> visited
              then (s\<lparr> visited_positions := Some (insert grid_pos visited) \<rparr>,
                    dict_set rc ''exploration_reward'' 0.1)
              else (s, rc))
         | None \<Rightarrow> (s\<lparr> visited_positions := Some {grid_pos} \<rparr>, rc))"

text \<open>
  \<open>AdvancedLaserVehicleEnv._compute_reward\<close>. It returns the controller, the total and
  the breakdown. A missing vehicle and any exception of the \<open>try\<close> block give reward 0
  and the seven zero entries of \<open>reward_metrics_keys\<close>; what was written to the
  controller before the exception stays written.
\<close>

definition compute_reward ::
    "env \<Rightarrow> engine \<Rightarrow> real list \<Rightarrow> info_arg \<Rightarrow> real \<Rightarrow> env \<times> real \<times> (string \<times> real) list" where
  "compute_reward s e action info now =
     (case vehicle (arena s) of
        None \<Rightarrow> (s, 0, zero_components)
      | Some v \<Rightarrow>
          (case and_then (get_position_and_orientation e) (\<lambda>pose.
                  and_then (get_velocity e) (\<lambda>velocity. Inr (pose, velocity))) of
             Inl err \<Rightarrow> (s, 0, zero_components)
           | Inr ((position, orientation), velocity) \<Rightarrow>
               (let rc = initial_components;
                    speed = vec_norm velocity;
                    hit = info_laser_hit info;
                    s = s\<lparr> current_position := Some position \<rparr>;
                    rc = reward_out_of_bounds (arena s) position rc;
                    rc = reward_mines (arena s) position rc
                in case check_collision e of
                     Inl err \<Rightarrow> (s, 0, zero_components)
                   | Inr collision \<Rightarrow>
                       (let rc = reward_collision collision rc;
                            rc = reward_opponent s position orientation rc;
                            rc = reward_waypoint s rc;
                            rc = reward_laser s hit now rc
                        in case get_laser_distances v e of
                             Inl err \<Rightarrow> (s, 0, zero_components)
                           | Inr laser_distances \<Rightarrow>
                               (let rc = reward_obstacles laser_distances rc;
                                    rc = reward_speed speed rc
                                in case reward_smooth s action rc of
                                     Inl err \<Rightarrow> (s, 0, zero_components)
                                   | Inr rc \<Rightarrow>
                                       (let rc = reward_energy action rc;
                                            (s, rc) = reward_exploration s position rc;
                                            s = s\<lparr> previous_action := Some action \<rparr>;
                                            total_reward = sum_list (map snd rc);
                                            rc = dict_set rc ''total_reward'' total_reward
                                        in (s, total_reward, rc)))))))"

section \<open>Termination, latch and laser hit\<close>

text \<open>
  \<open>AdvancedLaserVehicleEnv._is_terminated\<close>. The mine test runs over the arena's mine
  positions and is guarded by the arena's list of mine bodies. Without a vehicle the
  first call raises.
\<close>

definition is_terminated :: "env \<Rightarrow> engine \<Rightarrow> real \<Rightarrow> error + bool" where
  "is_terminated s e now =
     (case vehicle (arena s) of
        None \<Rightarrow> Inl AttributeError
      | Some v \<Rightarrow>
          and_then (check_collision e) (\<lambda>collision.
            if collision then Inr True
            else
              and_then (get_position_and_orientation e) (\<lambda>(position, orientation).
                if mine_objects (arena s) \<noteq> []
                   \<and> list_ex (\<lambda>mine_pos.
                         planar_distance (c0 position - c0 mine_pos) (c1 position - c1 mine_pos)
                           < 0.075 + 0.15)
                       (arena_mine_positions (arena s))
                then Inr True
                else if (case continuous_hit_start s of
                           None \<Rightarrow> False
                         | Some t0 \<Rightarrow> now - t0 \<ge> 2)
                then Inr True
                else if \<bar>c0 position\<bar> > 3.5 \<or> \<bar>c1 position\<bar> > 3.5
                then Inr True
                else Inr False)))"

definition is_truncated :: "env \<Rightarrow> bool" where
  "is_truncated s = (steps s \<ge> max_steps s)"

text \<open>\<open>AdvancedLaserVehicleEnv._check_boundary_crossed\<close>.\<close>

definition check_boundary_crossed :: "env \<Rightarrow> engine \<Rightarrow> error + env" where
  "check_boundary_crossed s e =
     (case vehicle (arena s) of
        None \<Rightarrow> Inl AttributeError
      | Some v \<Rightarrow>
          and_then (get_position_and_orientation e) (\<lambda>(position, orientation).
            if c1 position > 0 \<and> \<not> boundary_crossed s
            then Inr (s\<lparr> boundary_crossed := True \<rparr>)
            else Inr s))"

text \<open>
  \<open>AdvancedLaserVehicleEnv._check_laser_hit\<close>. \<open>forward_ray\<close> is the body hit by the ray
  cast along the heading; \<open>now\<close> is the clock reading taken on the first hit.
\<close>

definition check_laser_hit :: "env \<Rightarrow> engine \<Rightarrow> real \<Rightarrow> error + env \<times> bool" where
  "check_laser_hit s e now =
     (case vehicle (arena s) of
        None \<Rightarrow> Inl AttributeError
      | Some v \<Rightarrow>
          and_then (get_position_and_orientation e) (\<lambda>(position, orientation).
            if \<not> boundary_crossed s
            then Inr (s\<lparr> laser_hit := False, continuous_hit_start := None \<rparr>, False)
            else if opponent_id s = None \<or> opponent_position s = None
            then Inr (s, False)
            else if forward_ray e \<noteq> - 1
            then (if Some (forward_ray e) = opponent_id s
                  then (if \<not> laser_hit s
                        then Inr (s\<lparr> laser_hit := True, continuous_hit_start := Some now \<rparr>, True)
                        else Inr (s, True))
                  else Inr (s\<lparr> laser_hit := False, continuous_hit_start := None \<rparr>, False))
            else Inr (s\<lparr> laser_hit := False, continuous_hit_start := None \<rparr>, False)))"

section \<open>Step and reset\<close>

text \<open>
  What one call of \<open>step\<close> gets from outside: the engine as it answers before the tick
  (when the action is applied) and after it, and the clock readings taken by the laser
  check, the observation, the reward and the termination test.
\<close>

record tick =
  engine_before :: engine
  engine_after :: engine
  time_hit :: real
  time_observation :: real
  time_reward :: real
  time_terminated :: real

record step_result =
  observation :: "real list"
  reward :: real
  reward_components :: "(string \<times> real) list"
  terminated_flag :: bool
  truncated_flag :: bool

text \<open>
  The call \<open>self.arena.vehicle.apply_action(scaled_action)\<close>: the length check comes
  first, then the heading is read from the engine.
\<close>

definition vehicle_apply_action :: "laser_vehicle \<Rightarrow> engine \<Rightarrow> real list \<Rightarrow> error + velocity_command" where
  "vehicle_apply_action v e action =
     (if length action \<noteq> 2 then Inl ValueError
      else and_then (get_position_and_orientation e) (\<lambda>(position, orientation).
             apply_action v (c2 orientation) action))"

text \<open>
  \<open>AdvancedLaserVehicleEnv.step\<close>. The controller is returned in every case, since an
  exception leaves the object as it was when raised. The reward computation is called
  with the boolean \<open>hit\<close> as its second argument.
\<close>

definition step :: "env \<Rightarrow> tick \<Rightarrow> real list \<Rightarrow> env \<times> (error + step_result)" where
  "step s t action =
     (let s = s\<lparr> steps := steps s + 1 \<rparr>;
          s = s\<lparr> current_action := Some action \<rparr>;
          scaled_action = map (\<lambda>x. x * 3.0) action
      in case vehicle (arena s) of
           None \<Rightarrow> (s, Inl AttributeError)
         | Some v \<Rightarrow>
             (case vehicle_apply_action v (engine_before t) scaled_action of
                Inl err \<Rightarrow> (s, Inl err)
              | Inr command \<Rightarrow>
                  (case check_boundary_crossed s (engine_after t) of
                     Inl err \<Rightarrow> (s, Inl err)
                   | Inr s \<Rightarrow>
                       (case check_laser_hit s (engine_after t) (time_hit t) of
                          Inl err \<Rightarrow> (s, Inl err)
                        | Inr (s, hit) \<Rightarrow>
                            (let (s, obs) = get_observation s (engine_after t) (time_observation t);
                                 (s, r, rc) = compute_reward s (engine_after t) action
                                                (InfoOther hit) (time_reward t);
                                 s = s\<lparr> episode_reward := episode_reward s + r \<rparr>;
                                 s = s\<lparr> previous_action := Some action \<rparr>;
                                 s = s\<lparr> episode_metrics := rc \<rparr>
                             in case is_terminated s (engine_after t) (time_terminated t) of
                                  Inl err \<Rightarrow> (s, Inl err)
                                | Inr term \<Rightarrow>
                                    (s, Inr \<lparr> observation = obs, reward = r,
                                              reward_components = rc,
                                              terminated_flag = term,
                                              truncated_flag = is_truncated s \<rparr>))))))"

text \<open>A run of \<open>step\<close> calls with no \<open>reset\<close> between them.\<close>

fun run_steps :: "env \<Rightarrow> (tick \<times> real list) list \<Rightarrow> env" where
  "run_steps s [] = s"
| "run_steps s ((t, action) # rest) = run_steps (fst (step s t action)) rest"

text \<open>
  \<open>_get_random_start_position\<close>; \<open>u\<close> is the draw of \<open>np.random.rand()\<close>.
\<close>

definition get_random_start_position :: "real \<Rightarrow> real \<Rightarrow> vec3" where
  "get_random_start_position half u =
     (if u > 0.5 then (- half + 0.5, - half + 0.5, 0.1)
      else (half - 0.5, half - 0.5, 0.1))"

text \<open>\<open>np.random.uniform(lo, hi)\<close> from the underlying draw \<open>u\<close>.\<close>

definition np_uniform :: "real \<Rightarrow> real \<Rightarrow> real \<Rightarrow> real" where
  "np_uniform lo hi u = lo + (hi - lo) * u"

text \<open>
  \<open>AdvancedLaserVehicleEnv._reset_environment\<close>, in two parts. \<open>rebuild_scene\<close> is
  everything before the first observation: the arena is reset, draw 0 picks the start
  corner, draws 1 and 2 the two headings, then two draws per mine. The arena offers no
  \<open>spawn_mine\<close>, so the drawn mines are kept by the controller only. The primary
  vehicle is the 21st body created since the reset, the opponent the 26th.
\<close>

definition rebuild_scene :: "env \<Rightarrow> (nat \<Rightarrow> int) \<Rightarrow> env" where
  "rebuild_scene s body =
     (let a = arena_reset body (arena s);
          rng = np_random s;
          start_pos = get_random_start_position (arena_half_size a) (rng 0);
          (a, primary_id) = spawn_vehicle (body 20) (0.2, 0.15, 0.1) a;
          opponent_pos =
            (if c0 start_pos < 0
             then (arena_half_size a - 0.5, arena_half_size a - 0.5, 0.1)
             else (- arena_half_size a + 0.5, - arena_half_size a + 0.5, 0.1));
          (a, opp_id) = spawn_vehicle (body 25) (0.2, 0.15, 0.1) a;
          a = (case vehicle a of
                 None \<Rightarrow> a
               | Some v \<Rightarrow> a\<lparr> vehicle := Some (v\<lparr> veh_opponent_id := Some opp_id \<rparr>) \<rparr>);
          mine_count = nat (py_int (difficulty s * 8));
          mines = map (\<lambda>i. (np_uniform (- 2) 2 (rng (3 + 2 * i)),
                             np_uniform (- 2) 2 (rng (3 + 2 * i + 1)), 0.05))
                    [0..<mine_count]
      in s\<lparr> arena := a, opponent_position := Some opponent_pos,
            opponent_id := Some opp_id, mine_positions := mines,
            np_random := (\<lambda>k. rng (k + 3 + 2 * mine_count)) \<rparr>)"

text \<open>
  \<open>e\<close> is the engine once the scene is rebuilt. With the engine gone the arena reset
  raises at once, before anything is written, and the \<open>except\<close> branch returns the zero
  vector.
\<close>

definition reset_environment :: "env \<Rightarrow> (nat \<Rightarrow> int) \<Rightarrow> engine \<Rightarrow> real \<Rightarrow> env \<times> real list" where
  "reset_environment s body e now =
     (if \<not> is_connected e then (s, zero_observation s)
      else get_observation (rebuild_scene s body) e now)"

text \<open>
  \<open>AdvancedLaserVehicleEnv.reset\<close>. \<open>generator seed\<close> is the stream of draws numpy
  produces after \<open>np.random.seed(seed)\<close>. Three more counters are zeroed by the source
  (\<open>consecutive_laser_hits\<close>, \<open>last_laser_hit_time\<close>, \<open>reward_history\<close>); nothing reads
  them.
\<close>

definition reset ::
    "env \<Rightarrow> int option \<Rightarrow> (int \<Rightarrow> nat \<Rightarrow> real) \<Rightarrow> (nat \<Rightarrow> int) \<Rightarrow> engine \<Rightarrow> real \<Rightarrow> env \<times> real list" where
  "reset s seed generator body e now =
     (let s = (case seed of None \<Rightarrow> s | Some n \<Rightarrow> s\<lparr> np_random := generator n \<rparr>);
          s = s\<lparr> steps := 0, terminated := False, truncated := False, laser_hits_count := 0 \<rparr>;
          (s, obs) = reset_environment s body e now;
          s = s\<lparr> previous_action := None \<rparr>
      in (s, obs))"

section \<open>Predicates and sample episodes used by the statements\<close>

text \<open>The two gated entries of a breakdown are zero.\<close>

definition gate_closed :: "(string \<times> real) list \<Rightarrow> bool" where
  "gate_closed rc =
     (dict_get rc ''distance_reward'' = Some 0 \<and> dict_get rc ''rotation_reward'' = Some 0)"

text \<open>
  A sample run. The engine hands out body ids in order; every draw of the generator is
  1/4, which picks the upper right start corner. \<open>rest_engine\<close> is the engine with the
  vehicle standing on that corner, \<open>moved_engine\<close> after it moved a little,
  \<open>aiming_engine\<close> with the heading ray on the opponent, \<open>mine_engine\<close> with the vehicle
  next to the right mine.
\<close>

definition example_body :: "nat \<Rightarrow> int" where
  "example_body k = int k"

definition example_generator :: "int \<Rightarrow> nat \<Rightarrow> real" where
  "example_generator seed k = 1 / 4"

definition rest_engine :: engine where
  "rest_engine =
     \<lparr> is_connected = True, base_position = (1.5, 1.5, 0.1), base_orientation = (0, 0, 0),
       base_velocity = (0, 0, 0), base_angular_velocity = (0, 0, 0), contact_points = 0,
       scan_ray = (\<lambda>i. (- 1, 1)), forward_ray = - 1 \<rparr>"

definition moved_engine :: engine where
  "moved_engine = rest_engine\<lparr> base_position := (1.51, 1.5, 0.1) \<rparr>"

definition aiming_engine :: engine where
  "aiming_engine = moved_engine\<lparr> forward_ray := 25 \<rparr>"

definition mine_engine :: engine where
  "mine_engine = rest_engine\<lparr> base_position := (1.1, 0.1, 0.1) \<rparr>"

text \<open>
  The vehicle 0.4 from the centre of the right mine of the arena, and the vehicle standing
  on the point \<open>(-1, -1)\<close>, where the sample generator puts every mine that the
  controller draws at reset.
\<close>

definition near_mine_engine :: engine where
  "near_mine_engine = rest_engine\<lparr> base_position := (1.4, 0, 0.1) \<rparr>"

definition drawn_mine_engine :: engine where
  "drawn_mine_engine = rest_engine\<lparr> base_position := (- 1, - 1, 0.1) \<rparr>"

text \<open>The vehicle back in the lower half of the field.\<close>

definition south_engine :: engine where
  "south_engine = rest_engine\<lparr> base_position := (1.5, - 0.5, 0.1) \<rparr>"

definition example_tick :: "engine \<Rightarrow> real \<Rightarrow> tick" where
  "example_tick e now =
     \<lparr> engine_before = rest_engine, engine_after = e, time_hit = now,
       time_observation = now, time_reward = now, time_terminated = now \<rparr>"

text \<open>
  A new controller; the same after its first reset; after one step more, taken one
  second later; and after a further step, at second 2, in which the laser first hits.
\<close>

definition fresh_env :: env where
  "fresh_env = AdvancedLaserVehicleEnv_init example_body (example_generator 0) 0.5 1000"

definition started_env :: env where
  "started_env = fst (reset fresh_env (Some 7) example_generator example_body rest_engine 0)"

definition crossed_env :: env where
  "crossed_env = fst (step started_env (example_tick moved_engine 1) [1, 1])"

definition hitting_env :: env where
  "hitting_env = fst (step crossed_env (example_tick aiming_engine 2) [1, 1])"

section \<open>Properties of the vehicle model\<close>

lemma vec_norm_heading: "vec_norm (l * cos y, l * sin y, 0) = \<bar>l\<bar>"
proof -
  have "l * cos y * (l * cos y) + l * sin y * (l * sin y)
          = l * l * (cos y * cos y + sin y * sin y)"
    by (simp only: algebra_simps)
  also have "\<dots> = l * l" by (simp only: sin_cos_squared_add3 mult_1_right)
  finally have eq: "l * cos y * (l * cos y) + l * sin y * (l * sin y) + 0 * 0 = l * l"
    by (simp only: mult_zero_left add_0_right)
  show ?thesis
    unfolding vec_norm_def prod.case eq by (rule real_sqrt_abs2)
qed

lemma vec_norm_vertical: "vec_norm (0, 0, w) = \<bar>w\<bar>"
  by (simp add: vec_norm_def)

lemma clip_unit_scaled: "0 \<le> m \<Longrightarrow> \<bar>clip x (- 1) 1 * m\<bar> \<le> m"
proof -
  assume m: "0 \<le> m"
  have "\<bar>clip x (- 1) 1\<bar> \<le> 1" by (simp add: clip_def)
  then have "\<bar>clip x (- 1) 1\<bar> * m \<le> 1 * m" using m by (rule mult_right_mono)
  then show ?thesis using m by (simp add: abs_mult)
qed

lemma clip_symmetric: "0 \<le> m \<Longrightarrow> \<bar>clip x (- m) m\<bar> \<le> m"
  by (simp add: clip_def)

text \<open>The limits are not negative after construction, nor after a difficulty change.\<close>

lemma limits_nonnegative:
  "0 \<le> max_velocity (LaserVehicle_init body sz)"
  "0 \<le> max_angular_velocity (LaserVehicle_init body sz)"
  "0 \<le> d \<Longrightarrow> 0 \<le> max_velocity (vehicle_set_difficulty v d)"
  "0 \<le> d \<Longrightarrow> 0 \<le> max_angular_velocity (vehicle_set_difficulty v d)"
  by (simp_all add: LaserVehicle_init_def vehicle_set_difficulty_def)

text \<open>
  The drive command in exact arithmetic. For a vehicle whose two limits are not negative
  and every two-component action, whatever the values of the components, the linear
  velocity of the command has a norm of at most \<open>max_velocity\<close> and the angular velocity
  a norm of at most \<open>max_angular_velocity\<close>. This is a statement about the real numbers
  that the code's floats approximate. It is not the bound of claim C8 on the values
  handed to the engine: those are rounded (the action is a single precision array, the
  limits are doubles, and the products with the cosine and sine of the heading are
  rounded again), and whether a rounded value stays below a limit is a property of the
  floating point formats, which this embedding does not express.
\<close>

lemma apply_action_within_limits_exact:
  assumes mv: "0 \<le> max_velocity v" and mav: "0 \<le> max_angular_velocity v"
    and len: "length action = 2"
  shows "\<exists>c. apply_action v yaw action = Inr c
           \<and> vec_norm (linearVelocity c) \<le> max_velocity v
           \<and> vec_norm (angularVelocity c) \<le> max_angular_velocity v"
proof -
  define l where "l = clip (action ! 0) (- 1) 1 * max_velocity v"
  define r where "r = clip (action ! 1) (- 1) 1 * max_velocity v"
  define lin where "lin = (l + r) / 2"
  define ang where "ang = clip ((r - l) / (fst (snd (vehicle_size v)) * 1.1))
                            (- max_angular_velocity v) (max_angular_velocity v)"
  have run: "apply_action v yaw action =
               Inr \<lparr> linearVelocity = (lin * cos yaw, lin * sin yaw, 0),
                      angularVelocity = (0, 0, ang) \<rparr>"
    using len by (simp add: apply_action_def Let_def l_def r_def lin_def ang_def)
  have "\<bar>l\<bar> \<le> max_velocity v" "\<bar>r\<bar> \<le> max_velocity v"
    unfolding l_def r_def using mv by (rule clip_unit_scaled)+
  then have lin: "\<bar>lin\<bar> \<le> max_velocity v"
    unfolding lin_def by simp
  have ang: "\<bar>ang\<bar> \<le> max_angular_velocity v"
    unfolding ang_def using mav by (rule clip_symmetric)
  show ?thesis
    unfolding run using lin ang
    by (simp add: vec_norm_heading vec_norm_vertical)
qed

lemma apply_action_within_limits_exact_example:
  "\<exists>c. apply_action (LaserVehicle_init 1 (0.2, 0.15, 0.1)) 0 [3, - 3] = Inr c
     \<and> vec_norm (linearVelocity c) \<le> 2
     \<and> vec_norm (angularVelocity c) \<le> pi * 1.5"
  using apply_action_within_limits_exact [of "LaserVehicle_init 1 (0.2, 0.15, 0.1)" "[3, - 3]" 0]
  by (simp add: LaserVehicle_init_def)

section \<open>Properties of the curriculum manager\<close>

lemma init_default: "CurriculumManager_init default_config = Inr initial_manager"
  by (simp add: CurriculumManager_init_def default_config_def initial_manager_def)

lemma length_deque_append: "length (deque_append k xs x) = min (Suc (length xs)) k"
  by (simp add: deque_append_def Let_def)

lemma win_rate_slice_ok:
  "0 < w \<Longrightarrow> w \<le> int (length h) \<Longrightarrow> \<exists>r. win_rate (py_slice_from (- w) h) = Inr r"
  by (cases h) (auto simp add: win_rate_def py_slice_from_def)

lemma check_ok:
  assumes "default_manager_ok m" and "win_history m \<noteq> []"
  shows "snd (check_for_promotion_or_demotion m) = None
         \<and> default_manager_ok (fst (check_for_promotion_or_demotion m))"
proof -
  let ?h = "win_history m"
  have c: "config m = default_config" using assms by (simp add: default_manager_ok_def)
  have p: "10 \<le> int (length ?h) \<Longrightarrow> \<exists>r. win_rate (py_slice_from (- 10) ?h) = Inr r"
    by (rule win_rate_slice_ok) simp_all
  have d: "5 \<le> int (length ?h) \<Longrightarrow> \<exists>r. win_rate (py_slice_from (- 5) ?h) = Inr r"
    by (rule win_rate_slice_ok) simp_all
  show ?thesis
    using assms(1) p d
    by (auto simp add: check_for_promotion_or_demotion_def Let_def c default_config_def
        promote_def demote_def stage_change_error_def default_manager_ok_def
        split: sum.splits bool.splits if_splits)
qed

lemma record_outcome_ok:
  assumes "default_manager_ok m"
  shows "snd (record_outcome m w) = None \<and> default_manager_ok (fst (record_outcome m w))"
proof -
  let ?m = "m\<lparr> win_history :=
             deque_append (win_history_maxlen m) (win_history m) (if w then 1 else 0) \<rparr>"
  have "default_manager_ok ?m" using assms by (simp add: default_manager_ok_def)
  moreover have "win_history ?m \<noteq> []"
    using assms length_deque_append [of "win_history_maxlen m" "win_history m" "if w then 1 else 0"]
    by (auto simp add: default_manager_ok_def simp del: length_0_conv)
  ultimately show ?thesis
    unfolding record_outcome_def by (rule check_ok)
qed

text \<open>
  With the default configuration no sequence of outcomes raises, and the stage stays
  between 1 and 6.
\<close>

lemma record_outcomes_ok:
  "default_manager_ok m \<Longrightarrow>
     snd (record_outcomes m ws) = None \<and> default_manager_ok (fst (record_outcomes m ws))"
proof (induction ws arbitrary: m)
  case Nil
  then show ?case by simp
next
  case (Cons w ws)
  from record_outcome_ok [OF Cons.prems, of w]
  obtain m' where r: "record_outcome m w = (m', None)" and ok: "default_manager_ok m'"
    by (cases "record_outcome m w") auto
  show ?case using Cons.IH [OF ok] by (simp add: r)
qed

text \<open>
  Claim C4, as the code has it. Let \<open>h\<close> be the history after the new outcome is
  appended. When \<open>h\<close> holds at least \<open>promotion_window\<close> entries and the win rate over the
  last \<open>promotion_window\<close> entries reaches \<open>promotion_threshold\<close>, the call ends with the
  promotion step and nothing else: below \<open>max_stage\<close> the stage goes up by exactly one and
  the history is emptied; at \<open>max_stage\<close> the stage stays and the history is kept as \<open>h\<close>.
  The demotion check is not reached in either case, whatever it would have said.
\<close>

theorem record_outcome_promotion:
  assumes h: "h = deque_append (win_history_maxlen m) (win_history m) (if w then 1 else 0)"
    and len: "int (length h) \<ge> promotion_window (config m)"
    and rate: "win_rate (py_slice_from (- promotion_window (config m)) h) = Inr rate"
    and thr: "rate \<ge> promotion_threshold (config m)"
  shows "fst (record_outcome m w) =
           (if current_stage m < max_stage (config m)
            then m\<lparr> current_stage := current_stage m + 1, win_history := [] \<rparr>
            else m\<lparr> win_history := h \<rparr>)"
  using len rate thr unfolding record_outcome_def h [symmetric]
  by (simp add: check_for_promotion_or_demotion_def Let_def promote_def)

theorem record_outcome_promotion_witness:
  "fst (record_outcome
          (initial_manager\<lparr> current_stage := 3, win_history := [0, 1, 1, 1, 1, 1, 1, 1, 1] \<rparr>) True)
     = initial_manager\<lparr> current_stage := 4, win_history := [] \<rparr>"
  using record_outcome_promotion
    [of "[0, 1, 1, 1, 1, 1, 1, 1, 1, 1]"
        "initial_manager\<lparr> current_stage := 3, win_history := [0, 1, 1, 1, 1, 1, 1, 1, 1] \<rparr>"
        True "9 / 10"]
  by (simp add: initial_manager_def default_config_def deque_append_def py_slice_from_def
      win_rate_def)

text \<open>
  The claim as written fails at the top stage. Starting from the default manager, 59
  wins in a row lead to stage 6 with nine wins recorded. The next win fills the window
  with ten wins, rate 1, and the history is not cleared: it keeps all ten entries.
\<close>

theorem promotion_at_top_stage_counterexample:
  "record_outcomes initial_manager (replicate 59 True) = (top_stage_manager, None)
   \<and> promotion_window (config top_stage_manager)
        \<le> int (length (deque_append 10 (win_history top_stage_manager) 1))
   \<and> win_rate (py_slice_from (- 10) (deque_append 10 (win_history top_stage_manager) 1)) = Inr 1
   \<and> promotion_threshold (config top_stage_manager) \<le> 1
   \<and> current_stage (fst (record_outcome top_stage_manager True)) = 6
   \<and> win_history (fst (record_outcome top_stage_manager True)) = [1, 1, 1, 1, 1, 1, 1, 1, 1, 1]
   \<and> win_history (fst (record_outcome top_stage_manager True)) \<noteq> []"
  by (simp add: initial_manager_def top_stage_manager_def default_config_def record_outcome_def
      check_for_promotion_or_demotion_def Let_def promote_def demote_def deque_append_def
      py_slice_from_def win_rate_def stage_change_error_def numeral_eq_Suc)

section \<open>Properties of the episode controller\<close>

subsection \<open>Breakdown entries\<close>

lemma dict_get_set: "dict_get (dict_set d k v) k' = (if k' = k then Some v else dict_get d k')"
  by (simp add: dict_get_def dict_set_def update_conv')

lemma dict_get_add:
  "dict_get (dict_add d k x) k' = (if k' = k then Some (dict_val d k + x) else dict_get d k')"
  by (simp add: dict_add_def dict_get_set)

subsection \<open>What the parts of a step leave alone\<close>

lemma get_observation_fields:
  "arena (fst (get_observation s e now)) = arena s"
  "boundary_crossed (fst (get_observation s e now)) = boundary_crossed s"
  "continuous_hit_start (fst (get_observation s e now)) = continuous_hit_start s"
  "laser_hit (fst (get_observation s e now)) = laser_hit s"
  "steps (fst (get_observation s e now)) = steps s"
  "max_steps (fst (get_observation s e now)) = max_steps s"
  "history_length (fst (get_observation s e now)) = history_length s"
  "lasers (fst (get_observation s e now)) = lasers s"
  "previous_action (fst (get_observation s e now)) = previous_action s"
  "opponent_position (fst (get_observation s e now)) = opponent_position s"
  "opponent_id (fst (get_observation s e now)) = opponent_id s"
  by (simp_all add: get_observation_def Let_def split: option.splits sum.splits)

lemma reward_exploration_fields:
  "arena (fst (reward_exploration s p rc)) = arena s"
  "boundary_crossed (fst (reward_exploration s p rc)) = boundary_crossed s"
  "continuous_hit_start (fst (reward_exploration s p rc)) = continuous_hit_start s"
  "laser_hit (fst (reward_exploration s p rc)) = laser_hit s"
  "steps (fst (reward_exploration s p rc)) = steps s"
  "max_steps (fst (reward_exploration s p rc)) = max_steps s"
  "history_length (fst (reward_exploration s p rc)) = history_length s"
  "lasers (fst (reward_exploration s p rc)) = lasers s"
  "observation_history (fst (reward_exploration s p rc)) = observation_history s"
  "opponent_position (fst (reward_exploration s p rc)) = opponent_position s"
  "opponent_id (fst (reward_exploration s p rc)) = opponent_id s"
  by (simp_all add: reward_exploration_def Let_def split: option.splits)

lemma compute_reward_fields:
  "arena (fst (compute_reward s e a i now)) = arena s"
  "boundary_crossed (fst (compute_reward s e a i now)) = boundary_crossed s"
  "continuous_hit_start (fst (compute_reward s e a i now)) = continuous_hit_start s"
  "laser_hit (fst (compute_reward s e a i now)) = laser_hit s"
  "steps (fst (compute_reward s e a i now)) = steps s"
  "max_steps (fst (compute_reward s e a i now)) = max_steps s"
  "history_length (fst (compute_reward s e a i now)) = history_length s"
  "lasers (fst (compute_reward s e a i now)) = lasers s"
  "observation_history (fst (compute_reward s e a i now)) = observation_history s"
  "opponent_position (fst (compute_reward s e a i now)) = opponent_position s"
  "opponent_id (fst (compute_reward s e a i now)) = opponent_id s"
  by (simp_all add: compute_reward_def Let_def case_prod_beta reward_exploration_fields
      split: option.splits sum.splits)

lemma check_boundary_crossed_fields:
  assumes "check_boundary_crossed s e = Inr s'"
  shows "arena s' = arena s"
    and "boundary_crossed s \<Longrightarrow> boundary_crossed s'"
    and "continuous_hit_start s' = continuous_hit_start s"
    and "laser_hit s' = laser_hit s"
    and "steps s' = steps s"
    and "max_steps s' = max_steps s"
    and "history_length s' = history_length s"
    and "lasers s' = lasers s"
    and "observation_history s' = observation_history s"
    and "opponent_position s' = opponent_position s"
    and "opponent_id s' = opponent_id s"
    and "previous_action s' = previous_action s"
  using assms
  by (auto simp add: check_boundary_crossed_def and_then_def get_position_and_orientation_def
      split: option.splits sum.splits if_splits)

lemma check_laser_hit_fields:
  assumes "check_laser_hit s e now = Inr (s', hit)"
  shows "arena s' = arena s"
    and "boundary_crossed s' = boundary_crossed s"
    and "steps s' = steps s"
    and "max_steps s' = max_steps s"
    and "history_length s' = history_length s"
    and "lasers s' = lasers s"
    and "observation_history s' = observation_history s"
    and "opponent_position s' = opponent_position s"
    and "opponent_id s' = opponent_id s"
    and "previous_action s' = previous_action s"
  using assms
  by (auto simp add: check_laser_hit_def and_then_def get_position_and_orientation_def
      split: option.splits sum.splits if_splits)

lemma step_keeps_latch: "boundary_crossed s \<Longrightarrow> boundary_crossed (fst (step s t action))"
  by (auto simp add: step_def Let_def case_prod_beta get_observation_fields compute_reward_fields
      check_boundary_crossed_fields(2) check_laser_hit_fields(2)
      split: option.splits sum.splits)

lemma step_sets_latch:
  assumes "vehicle (arena s) \<noteq> None" and "length action = 2"
    and "is_connected (engine_before t)" and "is_connected (engine_after t)"
    and "c1 (base_position (engine_after t)) > 0"
  shows "boundary_crossed (fst (step s t action))"
  using assms
  by (auto simp add: step_def Let_def case_prod_beta get_observation_fields compute_reward_fields
      check_laser_hit_fields(2) check_boundary_crossed_def vehicle_apply_action_def
      apply_action_def and_then_def get_position_and_orientation_def
      split: option.splits sum.splits if_splits)

lemma run_steps_keeps_latch: "boundary_crossed s \<Longrightarrow> boundary_crossed (run_steps s ticks)"
proof (induction ticks arbitrary: s)
  case Nil
  then show ?case by simp
next
  case (Cons ta ticks)
  obtain t action where ta: "ta = (t, action)" by (cases ta)
  have "boundary_crossed (fst (step s t action))"
    using Cons.prems by (rule step_keeps_latch)
  then have "boundary_crossed (run_steps (fst (step s t action)) ticks)"
    by (rule Cons.IH)
  then show ?case by (simp add: ta)
qed

text \<open>
  Claim C5. Over any run of \<open>step\<close> calls with no \<open>reset\<close> between them, whether a call
  returns or raises, a latch that is set stays set.
\<close>

theorem latch_is_one_way:
  assumes "boundary_crossed s"
  shows "boundary_crossed (run_steps s ticks)"
  using assms by (rule run_steps_keeps_latch)

lemma check_boundary_crossed_ok:
  assumes "vehicle (arena s) \<noteq> None" and "is_connected e"
  shows "check_boundary_crossed s e =
           Inr (if c1 (base_position e) > 0 \<and> \<not> boundary_crossed s
                then s\<lparr> boundary_crossed := True \<rparr> else s)"
  using assms
  by (auto simp add: check_boundary_crossed_def and_then_def get_position_and_orientation_def)

lemma check_laser_hit_ok:
  assumes "vehicle (arena s) \<noteq> None" and "is_connected e"
  shows "\<exists>s' hit. check_laser_hit s e now = Inr (s', hit)"
  using assms
  by (auto simp add: check_laser_hit_def and_then_def get_position_and_orientation_def)

lemma is_terminated_ok:
  assumes "vehicle (arena s) \<noteq> None" and "is_connected e"
  shows "\<exists>b. is_terminated s e now = Inr b"
  using assms
  by (auto simp add: is_terminated_def and_then_def get_position_and_orientation_def
      check_collision_def)

lemma vehicle_apply_action_ok:
  assumes "length action = 2" and "is_connected e"
  shows "\<exists>c. vehicle_apply_action v e action = Inr c"
  using assms
  by (simp add: vehicle_apply_action_def apply_action_def and_then_def
      get_position_and_orientation_def Let_def)

lemma is_terminated_cong:
  assumes "arena s = arena s'" and "continuous_hit_start s = continuous_hit_start s'"
  shows "is_terminated s e now = is_terminated s' e now"
  unfolding is_terminated_def assms by (rule refl)

text \<open>The shape of a step that raises nowhere.\<close>

lemma step_result:
  assumes veh: "vehicle (arena s) \<noteq> None" and len: "length action = 2"
    and before: "is_connected (engine_before t)" and after: "is_connected (engine_after t)"
  shows "\<exists>s1 s2 hit fin.
           check_boundary_crossed (s\<lparr> steps := steps s + 1, current_action := Some action \<rparr>)
             (engine_after t) = Inr s1
         \<and> check_laser_hit s1 (engine_after t) (time_hit t) = Inr (s2, hit)
         \<and> is_terminated s2 (engine_after t) (time_terminated t) = Inr fin
         \<and> snd (step s t action) =
             Inr \<lparr> observation = snd (get_observation s2 (engine_after t) (time_observation t)),
                   reward = fst (snd (compute_reward
                              (fst (get_observation s2 (engine_after t) (time_observation t)))
                              (engine_after t) action (InfoOther hit) (time_reward t))),
                   reward_components = snd (snd (compute_reward
                              (fst (get_observation s2 (engine_after t) (time_observation t)))
                              (engine_after t) action (InfoOther hit) (time_reward t))),
                   terminated_flag = fin,
                   truncated_flag = (steps s + 1 \<ge> max_steps s) \<rparr>"
proof -
  let ?s0 = "s\<lparr> steps := steps s + 1, current_action := Some action \<rparr>"
  obtain v where v: "vehicle (arena s) = Some v" using veh by auto
  have len3: "length (map (\<lambda>x. x * 3.0) action) = 2" using len by simp
  obtain c where c: "vehicle_apply_action v (engine_before t) (map (\<lambda>x. x * 3.0) action) = Inr c"
    using vehicle_apply_action_ok [OF len3 before] by blast
  have veh0: "vehicle (arena ?s0) \<noteq> None" using veh by simp
  obtain s1 where s1: "check_boundary_crossed ?s0 (engine_after t) = Inr s1"
    using check_boundary_crossed_ok [OF veh0 after] by simp
  have veh1: "vehicle (arena s1) \<noteq> None"
    using check_boundary_crossed_fields(1) [OF s1] veh by simp
  obtain s2 hit where s2: "check_laser_hit s1 (engine_after t) (time_hit t) = Inr (s2, hit)"
    using check_laser_hit_ok [OF veh1 after] by blast
  have veh2: "vehicle (arena s2) \<noteq> None"
    using check_laser_hit_fields(1) [OF s2] veh1 by simp
  have st2: "steps s2 = steps s + 1" "max_steps s2 = max_steps s"
    using check_laser_hit_fields(3,4) [OF s2] check_boundary_crossed_fields(5,6) [OF s1] by simp_all
  let ?o = "get_observation s2 (engine_after t) (time_observation t)"
  let ?r = "compute_reward (fst ?o) (engine_after t) action (InfoOther hit) (time_reward t)"
  let ?s5 = "(fst ?r)\<lparr> episode_reward := episode_reward (fst ?r) + fst (snd ?r),
                         previous_action := Some action,
                         episode_metrics := snd (snd ?r) \<rparr>"
  have term_eq: "is_terminated ?s5 (engine_after t) (time_terminated t)
                   = is_terminated s2 (engine_after t) (time_terminated t)"
    by (rule is_terminated_cong) (simp_all add: compute_reward_fields get_observation_fields)
  obtain fin where fin: "is_terminated s2 (engine_after t) (time_terminated t) = Inr fin"
    using is_terminated_ok [OF veh2 after] by blast
  have "snd (step s t action) =
             Inr \<lparr> observation = snd ?o, reward = fst (snd ?r),
                   reward_components = snd (snd ?r),
                   terminated_flag = fin,
                   truncated_flag = (steps s + 1 \<ge> max_steps s) \<rparr>"
    using v c s1 s2 fin term_eq st2
    by (simp add: step_def Let_def case_prod_beta is_truncated_def compute_reward_fields
        get_observation_fields)
  with s1 s2 fin show ?thesis by blast
qed

subsection \<open>The gated entries\<close>

lemma dict_get_zero_components:
  "dict_get zero_components ''distance_reward'' = Some 0"
  "dict_get zero_components ''rotation_reward'' = Some 0"
  by (simp_all add: dict_get_def zero_components_def reward_metrics_keys_def)

lemma dict_get_initial_components:
  "dict_get initial_components ''distance_reward'' = Some 0"
  "dict_get initial_components ''rotation_reward'' = Some 0"
  by (simp_all add: dict_get_def initial_components_def)

lemma gate_closed_exploration:
  "reward_exploration s position rc = (s', rc') \<Longrightarrow> gate_closed rc \<Longrightarrow> gate_closed rc'"
  by (auto simp add: gate_closed_def reward_exploration_def Let_def dict_get_set
      split: option.splits if_splits)

lemma gate_closed_blocks:
  "gate_closed rc \<Longrightarrow> gate_closed (reward_out_of_bounds a position rc)"
  "gate_closed rc \<Longrightarrow> gate_closed (reward_mines a position rc)"
  "gate_closed rc \<Longrightarrow> gate_closed (reward_collision collision rc)"
  "gate_closed rc \<Longrightarrow> gate_closed (reward_waypoint s rc)"
  "gate_closed rc \<Longrightarrow> gate_closed (reward_laser s hit now rc)"
  "gate_closed rc \<Longrightarrow> gate_closed (reward_obstacles laser_distances rc)"
  "gate_closed rc \<Longrightarrow> gate_closed (reward_speed speed rc)"
  "gate_closed rc \<Longrightarrow> gate_closed (reward_energy action rc)"
  "gate_closed rc \<Longrightarrow> gate_closed (snd (reward_exploration s position rc))"
  by (simp_all add: gate_closed_def reward_out_of_bounds_def reward_mines_def
      reward_collision_def reward_waypoint_def reward_laser_def reward_obstacles_def
      reward_speed_def reward_energy_def reward_exploration_def Let_def dict_get_set dict_get_add
      split: option.splits)

lemma gate_closed_opponent:
  "\<not> boundary_crossed s \<Longrightarrow> gate_closed rc \<Longrightarrow> gate_closed (reward_opponent s position orientation rc)"
  by (simp add: gate_closed_def reward_opponent_def Let_def dict_get_set dict_get_add
      split: option.splits)

lemma gate_closed_smooth:
  "gate_closed rc \<Longrightarrow> reward_smooth s action rc = Inr rc' \<Longrightarrow> gate_closed rc'"
  by (auto simp add: gate_closed_def reward_smooth_def and_then_def Let_def dict_get_add
      split: option.splits sum.splits)

lemma gate_closed_total: "gate_closed rc \<Longrightarrow> gate_closed (dict_set rc ''total_reward'' x)"
  by (simp add: gate_closed_def dict_get_set)

lemma boundary_crossed_exploration:
  "boundary_crossed (fst (reward_exploration s position rc)) = boundary_crossed s"
  by (simp add: reward_exploration_def Let_def split: option.splits)

text \<open>
  Claim C1. Whenever the latch is not set, the breakdown returned by the reward
  computation has \<open>distance_reward\<close> and \<open>rotation_reward\<close> equal to 0, for every pose,
  engine answer, action and second argument, on the normal path as well as on the path
  taken when the vehicle is missing or an exception is caught.
\<close>

theorem reward_gate_closed:
  assumes "\<not> boundary_crossed s"
  shows "dict_get (snd (snd (compute_reward s e action info now))) ''distance_reward'' = Some 0
       \<and> dict_get (snd (snd (compute_reward s e action info now))) ''rotation_reward'' = Some 0"
proof -
  have z: "gate_closed zero_components"
    by (simp add: gate_closed_def dict_get_zero_components)
  have i: "gate_closed initial_components"
    by (simp add: gate_closed_def dict_get_initial_components)
  have "gate_closed (snd (snd (compute_reward s e action info now)))"
    using assms z
    by (auto simp add: compute_reward_def Let_def gate_closed_blocks gate_closed_opponent
        gate_closed_total i
        split: option.splits sum.splits prod.splits
        dest!: gate_closed_smooth [rotated] dest: gate_closed_exploration)
  then show ?thesis by (simp add: gate_closed_def)
qed

lemma dict_val_set: "dict_val (dict_set d k v) k' = (if k' = k then v else dict_val d k')"
  by (simp add: dict_val_def dict_set_def update_conv')

lemma dict_val_get: "dict_get d k = Some v \<Longrightarrow> dict_val d k = v"
  by (simp add: dict_val_def dict_get_def)

subsection \<open>The goal entry\<close>

lemma goal_blocks:
  "dict_get (reward_out_of_bounds a position rc) ''goal_reward'' = dict_get rc ''goal_reward''"
  "dict_get (reward_mines a position rc) ''goal_reward'' = dict_get rc ''goal_reward''"
  "dict_get (reward_collision collision rc) ''goal_reward'' = dict_get rc ''goal_reward''"
  "dict_get (reward_waypoint s rc) ''goal_reward'' = dict_get rc ''goal_reward''"
  "dict_get (reward_laser s False now rc) ''goal_reward'' = dict_get rc ''goal_reward''"
  "dict_get (reward_obstacles laser_distances rc) ''goal_reward'' = dict_get rc ''goal_reward''"
  "dict_get (reward_speed speed rc) ''goal_reward'' = dict_get rc ''goal_reward''"
  "dict_get (reward_energy action rc) ''goal_reward'' = dict_get rc ''goal_reward''"
  "dict_get (snd (reward_exploration s position rc)) ''goal_reward'' = dict_get rc ''goal_reward''"
  "dict_get (dict_set rc ''total_reward'' x) ''goal_reward'' = dict_get rc ''goal_reward''"
  by (simp_all add: reward_out_of_bounds_def reward_mines_def
      reward_collision_def reward_waypoint_def reward_laser_def reward_obstacles_def
      reward_speed_def reward_energy_def reward_exploration_def Let_def dict_get_set dict_get_add
      split: option.splits)

lemma goal_smooth:
  "reward_smooth s action rc = Inr rc' \<Longrightarrow>
     dict_get rc' ''goal_reward'' = dict_get rc ''goal_reward''"
  by (auto simp add: reward_smooth_def and_then_def Let_def dict_get_add
      split: option.splits sum.splits)

lemma goal_opponent:
  assumes "dict_get rc ''goal_reward'' = Some 0"
  shows "dict_get (reward_opponent s position orientation rc) ''goal_reward'' = Some 0
       \<or> dict_get (reward_opponent s position orientation rc) ''goal_reward'' = Some 3"
  using assms
  by (auto simp add: reward_opponent_def Let_def dict_get_set dict_get_add dict_val_set
      dict_val_get split: option.splits)

lemma goal_initial: "dict_get initial_components ''goal_reward'' = Some 0"
  by (simp add: dict_get_def initial_components_def)

lemma goal_zero: "dict_get zero_components ''goal_reward'' = Some 0"
  by (simp add: dict_get_def zero_components_def reward_metrics_keys_def)

lemma compute_reward_goal_without_hit:
  assumes "\<not> info_laser_hit info"
  shows "dict_get (snd (snd (compute_reward s e action info now))) ''goal_reward'' = Some 0
       \<or> dict_get (snd (snd (compute_reward s e action info now))) ''goal_reward'' = Some 3"
proof (cases "snd (snd (compute_reward s e action info now)) = zero_components")
  case True
  then show ?thesis by (simp add: goal_zero)
next
  case False
  then obtain v position orientation collision laser_distances rc' where
      rc': "reward_smooth (s\<lparr> current_position := Some position \<rparr>) action
              (reward_speed (vec_norm (base_velocity e))
                (reward_obstacles laser_distances
                  (reward_laser (s\<lparr> current_position := Some position \<rparr>) False now
                    (reward_waypoint (s\<lparr> current_position := Some position \<rparr>)
                      (reward_opponent (s\<lparr> current_position := Some position \<rparr>) position orientation
                        (reward_collision collision
                          (reward_mines (arena s) position
                            (reward_out_of_bounds (arena s) position initial_components)))))))) = Inr rc'"
      and res: "dict_get (snd (snd (compute_reward s e action info now))) ''goal_reward''
                  = dict_get rc' ''goal_reward''"
    using assms
    by (auto simp add: compute_reward_def Let_def case_prod_beta goal_blocks and_then_def
        get_position_and_orientation_def get_velocity_def
        split: option.splits sum.splits if_splits)
  have "dict_get (reward_collision collision
                          (reward_mines (arena s) position
                            (reward_out_of_bounds (arena s) position initial_components)))
          ''goal_reward'' = Some 0"
    by (simp add: goal_blocks goal_initial)
  from goal_opponent [OF this]
  show ?thesis
    unfolding res goal_smooth [OF rc'] by (simp add: goal_blocks)
qed

lemma is_terminated_victory:
  assumes "is_terminated s e now = Inr b" and "continuous_hit_start s = Some t0"
    and "now - t0 \<ge> 2"
  shows b
  using assms
  by (auto simp add: is_terminated_def and_then_def check_collision_def
      get_position_and_orientation_def split: option.splits if_splits)

lemma check_laser_hit_sustained:
  assumes "vehicle (arena s) \<noteq> None" and "is_connected e" and "boundary_crossed s"
    and "laser_hit s" and "opponent_id s = Some (forward_ray e)" and "forward_ray e \<noteq> - 1"
    and "opponent_position s \<noteq> None"
  shows "check_laser_hit s e now = Inr (s, True)"
  using assms
  by (auto simp add: check_laser_hit_def and_then_def get_position_and_orientation_def)

text \<open>
  Claim C2 against the code. Take a step in which nothing raises, with the latch set,
  the laser already hitting since \<open>t0\<close>, the heading ray still on the opponent, and at
  least 2 seconds gone since \<open>t0\<close>. The step reports termination, but the breakdown has
  no victory bonus: \<open>step\<close> passes the boolean \<open>hit\<close> where \<open>_compute_reward\<close> expects a
  dict, so the laser block is skipped and \<open>goal_reward\<close> is 0, or 3 near the start
  corner after step 100, never 50.
\<close>

theorem step_victory_without_bonus:
  assumes veh: "vehicle (arena s) \<noteq> None" and len: "length action = 2"
    and before: "is_connected (engine_before t)" and after: "is_connected (engine_after t)"
    and crossed: "boundary_crossed s" and hit: "laser_hit s"
    and start: "continuous_hit_start s = Some t0"
    and opp: "opponent_id s = Some (forward_ray (engine_after t))"
    and ray: "forward_ray (engine_after t) \<noteq> - 1"
    and pos: "opponent_position s \<noteq> None"
    and dur: "time_reward t - t0 \<ge> 2" "time_terminated t - t0 \<ge> 2"
  shows "\<exists>res. snd (step s t action) = Inr res \<and> terminated_flag res
           \<and> (dict_get (reward_components res) ''goal_reward'' = Some 0
              \<or> dict_get (reward_components res) ''goal_reward'' = Some 3)
           \<and> dict_get (reward_components res) ''goal_reward'' \<noteq> Some 50"
proof -
  let ?s0 = "s\<lparr> steps := steps s + 1, current_action := Some action \<rparr>"
  from step_result [OF veh len before after]
  obtain s1 s2 h fin where
      s1: "check_boundary_crossed ?s0 (engine_after t) = Inr s1"
      and s2: "check_laser_hit s1 (engine_after t) (time_hit t) = Inr (s2, h)"
      and fin: "is_terminated s2 (engine_after t) (time_terminated t) = Inr fin"
      and res: "snd (step s t action) =
             Inr \<lparr> observation = snd (get_observation s2 (engine_after t) (time_observation t)),
                   reward = fst (snd (compute_reward
                              (fst (get_observation s2 (engine_after t) (time_observation t)))
                              (engine_after t) action (InfoOther h) (time_reward t))),
                   reward_components = snd (snd (compute_reward
                              (fst (get_observation s2 (engine_after t) (time_observation t)))
                              (engine_after t) action (InfoOther h) (time_reward t))),
                   terminated_flag = fin,
                   truncated_flag = (steps s + 1 \<ge> max_steps s) \<rparr>"
    by blast
  have "check_boundary_crossed ?s0 (engine_after t) = Inr ?s0"
    using check_boundary_crossed_ok [of ?s0 "engine_after t"] veh after crossed by simp
  with s1 have s1_eq: "s1 = ?s0" by simp
  have "check_laser_hit ?s0 (engine_after t) (time_hit t) = Inr (?s0, True)"
    by (rule check_laser_hit_sustained) (use veh after crossed hit opp ray pos in simp_all)
  with s2 s1_eq have s2_eq: "s2 = ?s0" by simp
  have fin_true: fin
    by (rule is_terminated_victory [OF fin _ dur(2)]) (simp add: s2_eq start)
  have nohit: "\<not> info_laser_hit (InfoOther h)" by (simp add: info_laser_hit_def)
  let ?rc = "snd (snd (compute_reward
                              (fst (get_observation s2 (engine_after t) (time_observation t)))
                              (engine_after t) action (InfoOther h) (time_reward t)))"
  have "dict_get ?rc ''goal_reward'' = Some 0 \<or> dict_get ?rc ''goal_reward'' = Some 3"
    using nohit by (rule compute_reward_goal_without_hit)
  with fin_true show ?thesis unfolding res by auto
qed

subsection \<open>Mines\<close>

lemma mine_penalty_loop_contact:
  assumes "mine_pos \<in> set mines"
    and "planar_distance (c0 position - c0 mine_pos) (c1 position - c1 mine_pos) < 0.075 + 0.15"
  shows "mine_penalty_loop position mines penalty = - 15"
  using assms
proof (induction mines arbitrary: penalty)
  case Nil
  then show ?case by simp
next
  case (Cons m mines)
  show ?case
  proof (cases "planar_distance (c0 position - c0 m) (c1 position - c1 m) < 0.075 + 0.15")
    case True
    then show ?thesis by (simp add: Let_def)
  next
    case False
    with Cons.prems have "mine_pos \<in> set mines" by auto
    then have "\<And>p. mine_penalty_loop position mines p = - 15"
      using Cons.IH Cons.prems(2) by blast
    with False show ?thesis by (simp add: Let_def)
  qed
qed

lemma mine_penalty_loop_lower_bound:
  "- 15 \<le> penalty \<Longrightarrow> - 15 \<le> mine_penalty_loop position mines penalty"
proof (induction mines arbitrary: penalty)
  case Nil
  then show ?case by simp
next
  case (Cons m mines)
  let ?d = "planar_distance (c0 position - c0 m) (c1 position - c1 m)"
  have close: "\<not> ?d < 0.075 + 0.15 \<Longrightarrow>
                 - 15 \<le> min penalty (- 2 * (1 - (?d - 0.075) / 0.3))"
    using Cons.prems by (simp add: field_simps)
  have avoid: "0.3 < ?d \<Longrightarrow> - 15 \<le> penalty + 0.2 * ((?d - 0.3) / 0.4)"
    using Cons.prems by (simp add: field_simps)
  show ?case
    using Cons.prems close avoid
    by (auto simp add: Let_def intro!: Cons.IH)
qed

lemma mine_blocks:
  "dict_get (reward_collision collision rc) ''mine_penalty'' = dict_get rc ''mine_penalty''"
  "dict_get (reward_opponent s position orientation rc) ''mine_penalty'' = dict_get rc ''mine_penalty''"
  "dict_get (reward_waypoint s rc) ''mine_penalty'' = dict_get rc ''mine_penalty''"
  "dict_get (reward_laser s hit now rc) ''mine_penalty'' = dict_get rc ''mine_penalty''"
  "dict_get (reward_obstacles laser_distances rc) ''mine_penalty'' = dict_get rc ''mine_penalty''"
  "dict_get (reward_speed speed rc) ''mine_penalty'' = dict_get rc ''mine_penalty''"
  "dict_get (reward_energy action rc) ''mine_penalty'' = dict_get rc ''mine_penalty''"
  "dict_get (snd (reward_exploration s position rc)) ''mine_penalty'' = dict_get rc ''mine_penalty''"
  "dict_get (dict_set rc ''total_reward'' x) ''mine_penalty'' = dict_get rc ''mine_penalty''"
  by (simp_all add: reward_opponent_def
      reward_collision_def reward_waypoint_def reward_laser_def reward_obstacles_def
      reward_speed_def reward_energy_def reward_exploration_def Let_def dict_get_set dict_get_add
      split: option.splits)

lemma mine_smooth:
  "reward_smooth s action rc = Inr rc' \<Longrightarrow>
     dict_get rc' ''mine_penalty'' = dict_get rc ''mine_penalty''"
  by (auto simp add: reward_smooth_def and_then_def Let_def dict_get_add
      split: option.splits sum.splits)

lemma reward_smooth_ok:
  assumes "case previous_action s of None \<Rightarrow> True | Some prev \<Rightarrow> length prev = length action"
  shows "\<exists>rc'. reward_smooth s action rc = Inr rc'"
  using assms
  by (auto simp add: reward_smooth_def and_then_def np_subtract_def Let_def split: option.splits)

text \<open>The breakdown of a reward computation in which nothing raises.\<close>

lemma compute_reward_normal:
  assumes veh: "vehicle (arena s) = Some v" and conn: "is_connected e"
    and prev: "case previous_action s of None \<Rightarrow> True | Some prev \<Rightarrow> length prev = length action"
  shows "\<exists>rc rc'.
           reward_smooth (s\<lparr> current_position := Some (base_position e) \<rparr>) action rc = Inr rc'
         \<and> rc = reward_speed (vec_norm (base_velocity e))
                  (reward_obstacles
                    (map (\<lambda>i. case scan_ray e i of
                                 (body, hit_fraction) \<Rightarrow>
                                   if body \<noteq> - 1 then hit_fraction * laser_max_distance v
                                   else laser_max_distance v) [0..<16])
                    (reward_laser (s\<lparr> current_position := Some (base_position e) \<rparr>)
                       (info_laser_hit info) now
                      (reward_waypoint (s\<lparr> current_position := Some (base_position e) \<rparr>)
                        (reward_opponent (s\<lparr> current_position := Some (base_position e) \<rparr>)
                           (base_position e) (base_orientation e)
                          (reward_collision (contact_points e > 0)
                            (reward_mines (arena s) (base_position e)
                              (reward_out_of_bounds (arena s) (base_position e)
                                 initial_components)))))))
         \<and> snd (snd (compute_reward s e action info now)) =
             (let rc2 = snd (reward_exploration (s\<lparr> current_position := Some (base_position e) \<rparr>)
                               (base_position e) (reward_energy action rc'))
              in dict_set rc2 ''total_reward'' (sum_list (map snd rc2)))"
proof -
  let ?s = "s\<lparr> current_position := Some (base_position e) \<rparr>"
  let ?rc = "reward_speed (vec_norm (base_velocity e))
                  (reward_obstacles
                    (map (\<lambda>i. case scan_ray e i of
                                 (body, hit_fraction) \<Rightarrow>
                                   if body \<noteq> - 1 then hit_fraction * laser_max_distance v
                                   else laser_max_distance v) [0..<16])
                    (reward_laser ?s (info_laser_hit info) now
                      (reward_waypoint ?s
                        (reward_opponent ?s (base_position e) (base_orientation e)
                          (reward_collision (contact_points e > 0)
                            (reward_mines (arena s) (base_position e)
                              (reward_out_of_bounds (arena s) (base_position e)
                                 initial_components)))))))"
  have "case previous_action ?s of None \<Rightarrow> True | Some prev \<Rightarrow> length prev = length action"
    using prev by simp
  from reward_smooth_ok [OF this]
  obtain rc' where rc': "reward_smooth ?s action ?rc = Inr rc'" by blast
  have "snd (snd (compute_reward s e action info now)) =
             (let rc2 = snd (reward_exploration ?s (base_position e) (reward_energy action rc'))
              in dict_set rc2 ''total_reward'' (sum_list (map snd rc2)))"
    using veh conn rc'
    by (simp add: compute_reward_def Let_def case_prod_beta and_then_def
        get_position_and_orientation_def get_velocity_def check_collision_def
        get_laser_distances_def)
  with rc' show ?thesis by blast
qed

text \<open>
  Claim C3, as the code has it. The mines are those of the arena's own list
  (\<open>arena.mine_positions\<close>), and the contact radius is the constant the code tests,
  0.075 + 0.15 = 0.225. The arena keeps one mine body per mine position (\<open>arena_inv\<close>,
  kept by its operations, see \<open>arena_operations_keep_inv\<close>). With the vehicle present,
  the engine answering, and an action that fits the previous one, a position closer than
  0.225 to the centre of some mine of the arena gives \<open>mine_penalty\<close> = -15, the lowest
  value the mine loop can produce (\<open>mine_penalty_loop_lower_bound\<close>), and
  \<open>_is_terminated\<close> returns true.
\<close>

theorem mine_contact_penalty_and_termination:
  assumes veh: "vehicle (arena s) \<noteq> None" and conn: "is_connected e"
    and inv: "arena_inv (arena s)"
    and mine: "mine_pos \<in> set (arena_mine_positions (arena s))"
    and contact: "planar_distance (c0 (base_position e) - c0 mine_pos)
                    (c1 (base_position e) - c1 mine_pos) < 0.075 + 0.15"
    and prev: "case previous_action s of None \<Rightarrow> True | Some prev \<Rightarrow> length prev = length action"
  shows "dict_get (snd (snd (compute_reward s e action info now))) ''mine_penalty'' = Some (- 15)
       \<and> is_terminated s e now' = Inr True"
proof -
  obtain v where v: "vehicle (arena s) = Some v" using veh by auto
  from compute_reward_normal [OF v conn prev, of info now]
  obtain rc rc' where
      sm: "reward_smooth (s\<lparr> current_position := Some (base_position e) \<rparr>) action rc = Inr rc'"
      and rc: "dict_get rc ''mine_penalty''
                 = dict_get (reward_mines (arena s) (base_position e)
                     (reward_out_of_bounds (arena s) (base_position e) initial_components))
                     ''mine_penalty''"
      and res: "dict_get (snd (snd (compute_reward s e action info now))) ''mine_penalty''
                  = dict_get rc' ''mine_penalty''"
    by (auto simp add: mine_blocks Let_def)
  have "dict_get (reward_mines (arena s) (base_position e)
           (reward_out_of_bounds (arena s) (base_position e) initial_components)) ''mine_penalty''
          = Some (- 15)"
    using mine_penalty_loop_contact [OF mine contact]
    by (simp add: reward_mines_def dict_get_set)
  then have pen: "dict_get (snd (snd (compute_reward s e action info now))) ''mine_penalty''
                    = Some (- 15)"
    using res rc mine_smooth [OF sm] by simp
  have objs: "mine_objects (arena s) \<noteq> []"
    using inv mine by (auto simp add: arena_inv_def)
  have ex: "list_ex (\<lambda>m. planar_distance (c0 (base_position e) - c0 m)
                            (c1 (base_position e) - c1 m) < 0.075 + 0.15)
              (arena_mine_positions (arena s))"
    using mine contact by (auto simp add: list_ex_iff)
  have "is_terminated s e now' = Inr True"
    using v conn objs ex
    by (simp add: is_terminated_def and_then_def check_collision_def
        get_position_and_orientation_def)
  with pen show ?thesis by simp
qed

text \<open>
  The bonus itself is in place: called with a dict that says \<open>laser_hit\<close>, the reward
  computation pays 50 once the hit has lasted 2 seconds. Only \<open>step\<close> never calls it so.
\<close>

lemma compute_reward_goal_with_dict:
  assumes veh: "vehicle (arena s) \<noteq> None" and conn: "is_connected e"
    and prev: "case previous_action s of None \<Rightarrow> True | Some prev \<Rightarrow> length prev = length action"
    and hit: "info_laser_hit info" and start: "continuous_hit_start s = Some t0"
    and dur: "now - t0 \<ge> 2"
  shows "dict_get (snd (snd (compute_reward s e action info now))) ''goal_reward'' = Some 50"
proof -
  obtain v where v: "vehicle (arena s) = Some v" using veh by auto
  let ?s = "s\<lparr> current_position := Some (base_position e) \<rparr>"
  have laser: "\<And>rc. dict_get (reward_laser ?s True now rc) ''goal_reward'' = Some 50"
    using start dur by (simp add: reward_laser_def Let_def dict_get_set)
  from compute_reward_normal [OF v conn prev, of info now]
  obtain rc rc' where
      sm: "reward_smooth ?s action rc = Inr rc'"
      and rc: "dict_get rc ''goal_reward'' = Some 50"
      and res: "dict_get (snd (snd (compute_reward s e action info now))) ''goal_reward''
                  = dict_get rc' ''goal_reward''"
    using hit by (auto simp add: goal_blocks laser Let_def)
  show ?thesis using res rc goal_smooth [OF sm] by simp
qed

subsection \<open>Reset\<close>

lemma spawn_vehicle_fields:
  "arena_mine_positions (fst (spawn_vehicle b sz a)) = arena_mine_positions a"
  "mine_objects (fst (spawn_vehicle b sz a)) = mine_objects a"
  "arena_half_size (fst (spawn_vehicle b sz a)) = arena_half_size a"
  "vehicle (fst (spawn_vehicle b sz a)) \<noteq> None"
  "snd (spawn_vehicle b sz a) = b"
  by (simp_all add: spawn_vehicle_def Let_def LaserVehicle_init_def)

lemma arena_operations_keep_inv:
  "arena_inv (CombatArena_init body)"
  "arena_inv (arena_reset body a)"
  "arena_inv a \<Longrightarrow> arena_inv (add_mine body pos a)"
  "arena_inv a \<Longrightarrow> arena_inv (fst (spawn_vehicle b sz a))"
  by (simp_all add: arena_inv_def CombatArena_init_def arena_reset_def add_mine_def
      create_mines_def default_mine_positions_def spawn_vehicle_def Let_def)

lemma arena_reset_fields:
  "arena_mine_positions (arena_reset body a) = default_mine_positions (mine_height a)"
  "length (mine_objects (arena_reset body a)) = 3"
  "arena_half_size (arena_reset body a) = arena_half_size a"
  "vehicle (arena_reset body a) = None"
  by (simp_all add: arena_reset_def create_mines_def default_mine_positions_def)

lemma rebuild_scene_fields:
  "boundary_crossed (rebuild_scene s body) = boundary_crossed s"
  "laser_hit (rebuild_scene s body) = laser_hit s"
  "continuous_hit_start (rebuild_scene s body) = continuous_hit_start s"
  "steps (rebuild_scene s body) = steps s"
  "max_steps (rebuild_scene s body) = max_steps s"
  "history_length (rebuild_scene s body) = history_length s"
  "lasers (rebuild_scene s body) = lasers s"
  "observation_history (rebuild_scene s body) = observation_history s"
  "previous_action (rebuild_scene s body) = previous_action s"
  "opponent_id (rebuild_scene s body) = Some (body 25)"
  "opponent_position (rebuild_scene s body) \<noteq> None"
  by (simp_all add: rebuild_scene_def Let_def case_prod_beta spawn_vehicle_fields)

lemma rebuild_scene_arena:
  "vehicle (arena (rebuild_scene s body)) \<noteq> None"
  "arena_mine_positions (arena (rebuild_scene s body))
     = default_mine_positions (mine_height (arena s))"
  "arena_inv (arena (rebuild_scene s body))"
  "arena_half_size (arena (rebuild_scene s body)) = arena_half_size (arena s)"
  by (auto simp add: rebuild_scene_def Let_def case_prod_beta spawn_vehicle_fields
      arena_reset_fields arena_inv_def default_mine_positions_def split: option.splits)

lemma reset_environment_fields:
  "boundary_crossed (fst (reset_environment s body e now)) = boundary_crossed s"
  "laser_hit (fst (reset_environment s body e now)) = laser_hit s"
  "continuous_hit_start (fst (reset_environment s body e now)) = continuous_hit_start s"
  "steps (fst (reset_environment s body e now)) = steps s"
  "max_steps (fst (reset_environment s body e now)) = max_steps s"
  "history_length (fst (reset_environment s body e now)) = history_length s"
  "lasers (fst (reset_environment s body e now)) = lasers s"
  by (simp_all add: reset_environment_def get_observation_fields rebuild_scene_fields)

lemma reset_fields:
  "boundary_crossed (fst (reset s seed gen body e now)) = boundary_crossed s"
  "laser_hit (fst (reset s seed gen body e now)) = laser_hit s"
  "continuous_hit_start (fst (reset s seed gen body e now)) = continuous_hit_start s"
  "steps (fst (reset s seed gen body e now)) = 0"
  "max_steps (fst (reset s seed gen body e now)) = max_steps s"
  "history_length (fst (reset s seed gen body e now)) = history_length s"
  "lasers (fst (reset s seed gen body e now)) = lasers s"
  "previous_action (fst (reset s seed gen body e now)) = None"
  by (simp_all add: reset_def Let_def case_prod_beta reset_environment_fields split: option.splits)

lemma reset_connected:
  assumes "is_connected e"
  shows "vehicle (arena (fst (reset s seed gen body e now))) \<noteq> None"
    and "arena_inv (arena (fst (reset s seed gen body e now)))"
    and "arena_mine_positions (arena (fst (reset s seed gen body e now)))
           = default_mine_positions (mine_height (arena s))"
    and "opponent_id (fst (reset s seed gen body e now)) = Some (body 25)"
    and "opponent_position (fst (reset s seed gen body e now)) \<noteq> None"
  using assms
  by (simp_all add: reset_def Let_def case_prod_beta reset_environment_def get_observation_fields
      rebuild_scene_fields rebuild_scene_arena split: option.splits)

text \<open>
  Claim C6 against the code: \<open>reset\<close> zeroes the step counter but does not touch the
  latch, nor the laser state. A controller whose latch was set in the last episode
  starts the next one with the latch still set.
\<close>

theorem reset_keeps_boundary_latch:
  assumes "boundary_crossed s"
  shows "steps (fst (reset s seed gen body e now)) = 0
       \<and> boundary_crossed (fst (reset s seed gen body e now))"
  using assms by (simp add: reset_fields)

subsection \<open>Observation\<close>

lemma length_infos:
  "length (opponent_info s position orientation) = 4"
  "length (boundary_info s position) = 2"
  "length (mine_info s position orientation) = 2"
  "length (laser_info s now) = 2"
  "length (vec_list p) = 3"
  by (simp_all add: opponent_info_def boundary_info_def mine_info_def laser_info_def
      vec_list_def Let_def split: option.splits list.splits)

lemma current_observation_connected:
  assumes "is_connected e"
  shows "\<exists>lasers_part rest.
           current_observation s v e now = Inr (lasers_part @ c0 (base_position e) # rest)
         \<and> length lasers_part = 16 \<and> length rest = 23"
proof -
  let ?l = "map (\<lambda>i. case scan_ray e i of
                        (body, hit_fraction) \<Rightarrow>
                          if body \<noteq> - 1 then hit_fraction * laser_max_distance v
                          else laser_max_distance v) [0..<16]"
  let ?rest = "[c1 (base_position e), c2 (base_position e)] @ vec_list (base_orientation e)
                 @ vec_list (base_velocity e) @ vec_list (base_angular_velocity e)
                 @ opponent_info s (base_position e) (base_orientation e)
                 @ boundary_info s (base_position e)
                 @ mine_info s (base_position e) (base_orientation e)
                 @ laser_info s now @ [0, 0]"
  have "current_observation s v e now = Inr (?l @ c0 (base_position e) # ?rest)"
    using assms
    by (simp add: current_observation_def and_then_def get_laser_distances_def
        get_position_and_orientation_def get_velocity_def get_angular_velocity_def
        vec_list_def)
  moreover have "length ?l = 16" by simp
  moreover have "length ?rest = 23" by (simp add: length_infos)
  ultimately show ?thesis by blast
qed

lemma current_observation_disconnected:
  "\<not> is_connected e \<Longrightarrow> current_observation s v e now = Inl PhysicsError"
  by (simp add: current_observation_def and_then_def get_laser_distances_def)

text \<open>
  Claim C9. When the vehicle is missing, or building the frame raises (whatever the
  error), \<open>_get_observation\<close> returns the zero vector of the size of the observation
  space and leaves the controller as it was; with the default observation configuration
  that is 160 zeros. The result type has no error: nothing is propagated.
\<close>

theorem observation_failure_gives_zero_vector:
  assumes fail: "vehicle (arena s) = None
                 \<or> (\<exists>v err. vehicle (arena s) = Some v \<and> current_observation s v e now = Inl err)"
    and cfg: "lasers s = 16" "history_length s = 4"
  shows "get_observation s e now = (s, replicate 160 0)"
  using fail cfg
  by (auto simp add: get_observation_def zero_observation_def observation_size_def
      split: option.splits sum.splits)

lemma get_observation_with_history:
  assumes veh: "vehicle (arena s) \<noteq> None" and conn: "is_connected e"
    and hist: "observation_history s = Some [a, b, c, d]" and len: "history_length s = 4"
  shows "\<exists>f. length f = 40 \<and> f ! 16 = c0 (base_position e)
           \<and> snd (get_observation s e now) = b @ c @ d @ f
           \<and> observation_history (fst (get_observation s e now)) = Some [b, c, d, f]"
proof -
  obtain v where v: "vehicle (arena s) = Some v" using veh by auto
  from current_observation_connected [OF conn, of s v now]
  obtain l r where f: "current_observation s v e now = Inr (l @ c0 (base_position e) # r)"
    and l: "length l = 16" and r: "length r = 23" by blast
  let ?f = "l @ c0 (base_position e) # r"
  have "length ?f = 40" using l r by simp
  moreover have "?f ! 16 = c0 (base_position e)" using l by (simp add: nth_append)
  moreover have "snd (get_observation s e now) = b @ c @ d @ ?f"
    using v f hist len by (simp add: get_observation_def Let_def deque_append_def)
  moreover have "observation_history (fst (get_observation s e now)) = Some [b, c, d, ?f]"
    using v f hist len by (simp add: get_observation_def Let_def deque_append_def)
  ultimately show ?thesis by blast
qed

lemma get_observation_first:
  assumes veh: "vehicle (arena s) \<noteq> None" and conn: "is_connected e"
    and hist: "observation_history s = None" and len: "history_length s = 4"
  shows "\<exists>f. length f = 40 \<and> f ! 16 = c0 (base_position e)
           \<and> snd (get_observation s e now) = f @ f @ f @ f
           \<and> observation_history (fst (get_observation s e now)) = Some [f, f, f, f]"
proof -
  obtain v where v: "vehicle (arena s) = Some v" using veh by auto
  from current_observation_connected [OF conn, of s v now]
  obtain l r where f: "current_observation s v e now = Inr (l @ c0 (base_position e) # r)"
    and l: "length l = 16" and r: "length r = 23" by blast
  let ?f = "l @ c0 (base_position e) # r"
  have "length ?f = 40" using l r by simp
  moreover have "?f ! 16 = c0 (base_position e)" using l by (simp add: nth_append)
  moreover have "snd (get_observation s e now) = ?f @ ?f @ ?f @ ?f"
    using v f hist len
    by (simp add: get_observation_def Let_def deque_append_def numeral_eq_Suc)
  moreover have "observation_history (fst (get_observation s e now)) = Some [?f, ?f, ?f, ?f]"
    using v f hist len
    by (simp add: get_observation_def Let_def deque_append_def numeral_eq_Suc)
  ultimately show ?thesis by blast
qed

lemma reset_with_history:
  assumes conn: "is_connected e"
    and hist: "observation_history s = Some [a, b, c, d]" and len: "history_length s = 4"
  shows "\<exists>f. length f = 40 \<and> f ! 16 = c0 (base_position e)
           \<and> snd (reset s seed gen body e now) = b @ c @ d @ f
           \<and> observation_history (fst (reset s seed gen body e now)) = Some [b, c, d, f]"
proof -
  let ?s0 = "case seed of None \<Rightarrow> s | Some n \<Rightarrow> s\<lparr> np_random := gen n \<rparr>"
  let ?s1 = "?s0\<lparr> steps := 0, terminated := False, truncated := False, laser_hits_count := 0 \<rparr>"
  let ?pre = "rebuild_scene ?s1 body"
  have h: "observation_history ?pre = Some [a, b, c, d]"
    using hist by (simp add: rebuild_scene_fields split: option.splits)
  have l: "history_length ?pre = 4"
    using len by (simp add: rebuild_scene_fields split: option.splits)
  have v: "vehicle (arena ?pre) \<noteq> None" by (rule rebuild_scene_arena)
  from get_observation_with_history [OF v conn h l, of now]
  obtain f where "length f = 40" "f ! 16 = c0 (base_position e)"
      "snd (get_observation ?pre e now) = b @ c @ d @ f"
      "observation_history (fst (get_observation ?pre e now)) = Some [b, c, d, f]"
    by blast
  moreover have "reset s seed gen body e now
                   = ((fst (get_observation ?pre e now))\<lparr> previous_action := None \<rparr>,
                      snd (get_observation ?pre e now))"
    using conn by (simp add: reset_def Let_def case_prod_beta reset_environment_def)
  ultimately show ?thesis by auto
qed

text \<open>
  Claim C7 against the code. The frame history is created once and never cleared, so a
  reset only appends to it. Take a controller that has been stepped, so that its history
  \<open>[a, b, c, d]\<close> holds frames that are not all equal. Resetting it twice with the same
  seed, the engine giving the same answers both times, returns two different
  observations: the first is \<open>b, c, d\<close> and the new frame, the second starts one frame
  later.
\<close>

theorem reset_twice_observations_differ:
  assumes conn: "is_connected e"
    and hist: "observation_history s = Some [a, b, c, d]" and len: "history_length s = 4"
    and sizes: "length b = length c" "length c = length d"
    and differ: "b \<noteq> c \<or> c \<noteq> d"
  shows "snd (reset s (Some n) gen body e now)
           \<noteq> snd (reset (fst (reset s (Some n) gen body e now)) (Some n) gen body e now')"
proof -
  let ?s' = "fst (reset s (Some n) gen body e now)"
  from reset_with_history [OF conn hist len, of "Some n" gen body now]
  obtain f where f: "length f = 40"
      and o1: "snd (reset s (Some n) gen body e now) = b @ c @ d @ f"
      and h1: "observation_history ?s' = Some [b, c, d, f]"
    by blast
  have len': "history_length ?s' = 4" using len by (simp add: reset_fields)
  from reset_with_history [OF conn h1 len', of "Some n" gen body now']
  obtain g where o2: "snd (reset ?s' (Some n) gen body e now') = c @ d @ f @ g"
    by blast
  show ?thesis
  proof
    assume "snd (reset s (Some n) gen body e now) = snd (reset ?s' (Some n) gen body e now')"
    then have eq: "b @ (c @ d @ f) = c @ (d @ f @ g)" using o1 o2 by simp
    then have bc: "b = c" and rest: "c @ d @ f = d @ f @ g"
      using sizes(1) by simp_all
    from rest have "c = d" using sizes(2) by simp
    with bc differ show False by simp
  qed
qed

lemma current_observation_cong:
  assumes "opponent_position s = opponent_position s'"
    and "boundary_crossed s = boundary_crossed s'"
    and "mine_positions s = mine_positions s'"
    and "laser_hit s = laser_hit s'"
    and "continuous_hit_start s = None" and "continuous_hit_start s' = None"
    and "laser_max_distance v = laser_max_distance v'"
  shows "current_observation s v e now = current_observation s' v' e now'"
  unfolding current_observation_def get_laser_distances_def opponent_info_def
    boundary_info_def mine_info_def laser_info_def assms
  by simp

lemma difficulty_fields:
  "difficulty (fst (get_observation s e now)) = difficulty s"
  "difficulty (rebuild_scene s body) = difficulty s"
  by (simp_all add: get_observation_def rebuild_scene_def Let_def case_prod_beta
      split: option.splits sum.splits)

lemma rebuild_scene_opponent:
  "opponent_position (rebuild_scene s body)
     = Some (if c0 (get_random_start_position (arena_half_size (arena s)) (np_random s 0)) < 0
             then (arena_half_size (arena s) - 0.5, arena_half_size (arena s) - 0.5, 0.1)
             else (- arena_half_size (arena s) + 0.5, - arena_half_size (arena s) + 0.5, 0.1))"
  by (simp add: rebuild_scene_def Let_def case_prod_beta spawn_vehicle_fields arena_reset_fields)

lemma rebuild_scene_mines:
  "mine_positions (rebuild_scene s body)
     = map (\<lambda>i. (np_uniform (- 2) 2 (np_random s (3 + 2 * i)),
                  np_uniform (- 2) 2 (np_random s (3 + 2 * i + 1)), 0.05))
         [0..<nat (py_int (difficulty s * 8))]"
  by (simp add: rebuild_scene_def Let_def case_prod_beta)

lemma rebuild_scene_vehicle:
  "vehicle (arena (rebuild_scene s body))
     = Some ((LaserVehicle_init (body 20) (0.2, 0.15, 0.1))\<lparr> veh_opponent_id := Some (body 25) \<rparr>)"
  by (simp add: rebuild_scene_def Let_def case_prod_beta spawn_vehicle_def arena_reset_fields
      LaserVehicle_init_def)

text \<open>
  For comparison: a controller that has never produced an observation and has no hit
  running returns the same observation from two resets with the same seed. What breaks
  the repetition for a used controller is only the state that \<open>reset\<close> leaves behind.
\<close>

lemma reset_twice_fresh_same:
  assumes conn: "is_connected e"
    and hist: "observation_history s = None" and len: "history_length s = 4"
    and nohit: "continuous_hit_start s = None"
  shows "snd (reset s (Some n) gen body e now)
           = snd (reset (fst (reset s (Some n) gen body e now)) (Some n) gen body e now')"
proof -
  let ?s1 = "s\<lparr> np_random := gen n, steps := 0, terminated := False, truncated := False,
                 laser_hits_count := 0 \<rparr>"
  let ?pre = "rebuild_scene ?s1 body"
  let ?v = "(LaserVehicle_init (body 20) (0.2, 0.15, 0.1))\<lparr> veh_opponent_id := Some (body 25) \<rparr>"
  let ?o = "get_observation ?pre e now"
  let ?s' = "(fst ?o)\<lparr> previous_action := None \<rparr>"
  have r1: "reset s (Some n) gen body e now = (?s', snd ?o)"
    using conn by (simp add: reset_def Let_def case_prod_beta reset_environment_def)
  let ?s1' = "?s'\<lparr> np_random := gen n, steps := 0, terminated := False, truncated := False,
                   laser_hits_count := 0 \<rparr>"
  let ?pre' = "rebuild_scene ?s1' body"
  let ?o' = "get_observation ?pre' e now'"
  have r2: "snd (reset ?s' (Some n) gen body e now') = snd ?o'"
    using conn by (simp add: reset_def Let_def case_prod_beta reset_environment_def)
  obtain f where f: "current_observation ?pre ?v e now = Inr f"
    using current_observation_connected [OF conn, of ?pre ?v now] by blast
  have same: "current_observation ?pre' ?v e now' = current_observation ?pre ?v e now"
  proof (rule current_observation_cong)
    show "opponent_position ?pre' = opponent_position ?pre"
      by (simp add: rebuild_scene_opponent rebuild_scene_arena get_observation_fields)
    show "mine_positions ?pre' = mine_positions ?pre"
      by (simp add: rebuild_scene_mines difficulty_fields)
    show "boundary_crossed ?pre' = boundary_crossed ?pre"
      by (simp add: rebuild_scene_fields get_observation_fields)
    show "laser_hit ?pre' = laser_hit ?pre"
      by (simp add: rebuild_scene_fields get_observation_fields)
    show "continuous_hit_start ?pre' = None" "continuous_hit_start ?pre = None"
      using nohit by (simp_all add: rebuild_scene_fields get_observation_fields)
  qed simp
  have h0: "observation_history ?pre = None" using hist by (simp add: rebuild_scene_fields)
  have l0: "history_length ?pre = 4" using len by (simp add: rebuild_scene_fields)
  have o: "snd ?o = f @ f @ f @ f" "observation_history (fst ?o) = Some [f, f, f, f]"
    using f h0 l0
    by (simp_all add: get_observation_def Let_def deque_append_def numeral_eq_Suc
        rebuild_scene_vehicle)
  have h1: "observation_history ?pre' = Some [f, f, f, f]"
    using o(2) by (simp add: rebuild_scene_fields)
  have l1: "history_length ?pre' = 4"
    using len by (simp add: rebuild_scene_fields get_observation_fields)
  have "snd ?o' = f @ f @ f @ f"
    using f same h1 l1
    by (simp add: get_observation_def Let_def deque_append_def rebuild_scene_vehicle)
  with o(1) r1 r2 show ?thesis by simp
qed

subsection \<open>The waypoint entry\<close>

lemma waypoint_blocks:
  "dict_get (reward_laser s hit now rc) ''waypoint_reward'' = dict_get rc ''waypoint_reward''"
  "dict_get (reward_obstacles laser_distances rc) ''waypoint_reward'' = dict_get rc ''waypoint_reward''"
  "dict_get (reward_speed speed rc) ''waypoint_reward'' = dict_get rc ''waypoint_reward''"
  "dict_get (reward_energy action rc) ''waypoint_reward'' = dict_get rc ''waypoint_reward''"
  "dict_get (snd (reward_exploration s position rc)) ''waypoint_reward'' = dict_get rc ''waypoint_reward''"
  "dict_get (dict_set rc ''total_reward'' x) ''waypoint_reward'' = dict_get rc ''waypoint_reward''"
  "boundary_crossed s \<Longrightarrow> dict_get (reward_waypoint s rc) ''waypoint_reward'' = Some 0.3"
  by (simp_all add: reward_waypoint_def reward_laser_def reward_obstacles_def
      reward_speed_def reward_energy_def reward_exploration_def Let_def dict_get_set dict_get_add
      split: option.splits)

lemma waypoint_smooth:
  "reward_smooth s action rc = Inr rc' \<Longrightarrow>
     dict_get rc' ''waypoint_reward'' = dict_get rc ''waypoint_reward''"
  by (auto simp add: reward_smooth_def and_then_def Let_def dict_get_add
      split: option.splits sum.splits)

lemma compute_reward_waypoint:
  assumes veh: "vehicle (arena s) \<noteq> None" and conn: "is_connected e"
    and prev: "case previous_action s of None \<Rightarrow> True | Some prev \<Rightarrow> length prev = length action"
    and crossed: "boundary_crossed s"
  shows "dict_get (snd (snd (compute_reward s e action info now))) ''waypoint_reward'' = Some 0.3"
proof -
  obtain v where v: "vehicle (arena s) = Some v" using veh by auto
  have crossed': "boundary_crossed (s\<lparr> current_position := Some (base_position e) \<rparr>)"
    using crossed by simp
  from compute_reward_normal [OF v conn prev, of info now]
  obtain rc rc' where
      sm: "reward_smooth (s\<lparr> current_position := Some (base_position e) \<rparr>) action rc = Inr rc'"
      and rc: "dict_get rc ''waypoint_reward'' = Some 0.3"
      and res: "dict_get (snd (snd (compute_reward s e action info now))) ''waypoint_reward''
                  = dict_get rc' ''waypoint_reward''"
    by (auto simp add: waypoint_blocks(1-6) waypoint_blocks(7) [OF crossed'] Let_def)
  show ?thesis using res rc waypoint_smooth [OF sm] by simp
qed

text \<open>
  Claim C10. In a step that raises nowhere (vehicle present, two-component action,
  engine answering), a strictly positive y coordinate after the tick sets the latch,
  whatever the latch and the position were before; the same step already pays the
  waypoint entry that sits behind the gate. After a reset whose first draw is at most
  1/2 the vehicle is placed on the upper right corner, at y = 1.5 for the default arena,
  so the first step of such an episode opens the gate.
\<close>

theorem latch_set_by_positive_y:
  assumes veh: "vehicle (arena s) \<noteq> None" and len: "length action = 2"
    and before: "is_connected (engine_before t)" and after: "is_connected (engine_after t)"
    and y: "c1 (base_position (engine_after t)) > 0"
    and prev: "case previous_action s of None \<Rightarrow> True | Some prev \<Rightarrow> length prev = 2"
  shows "boundary_crossed (fst (step s t action))
       \<and> (\<exists>res. snd (step s t action) = Inr res
              \<and> dict_get (reward_components res) ''waypoint_reward'' = Some 0.3)
       \<and> (\<forall>u. u \<le> 0.5 \<longrightarrow> c1 (get_random_start_position 2 u) = 1.5)"
proof -
  let ?s0 = "s\<lparr> steps := steps s + 1, current_action := Some action \<rparr>"
  from step_result [OF veh len before after]
  obtain s1 s2 h fin where
      s1: "check_boundary_crossed ?s0 (engine_after t) = Inr s1"
      and s2: "check_laser_hit s1 (engine_after t) (time_hit t) = Inr (s2, h)"
      and res: "snd (step s t action) =
             Inr \<lparr> observation = snd (get_observation s2 (engine_after t) (time_observation t)),
                   reward = fst (snd (compute_reward
                              (fst (get_observation s2 (engine_after t) (time_observation t)))
                              (engine_after t) action (InfoOther h) (time_reward t))),
                   reward_components = snd (snd (compute_reward
                              (fst (get_observation s2 (engine_after t) (time_observation t)))
                              (engine_after t) action (InfoOther h) (time_reward t))),
                   terminated_flag = fin,
                   truncated_flag = (steps s + 1 \<ge> max_steps s) \<rparr>"
    by blast
  let ?so = "fst (get_observation s2 (engine_after t) (time_observation t))"
  have "boundary_crossed s1"
    using s1 check_boundary_crossed_ok [of ?s0 "engine_after t"] veh after y
    by (auto split: if_splits)
  then have c2: "boundary_crossed s2" using check_laser_hit_fields(2) [OF s2] by simp
  then have co: "boundary_crossed ?so" by (simp add: get_observation_fields)
  have vo: "vehicle (arena ?so) \<noteq> None"
    using veh check_boundary_crossed_fields(1) [OF s1] check_laser_hit_fields(1) [OF s2]
    by (simp add: get_observation_fields)
  have po: "case previous_action ?so of None \<Rightarrow> True | Some prev \<Rightarrow> length prev = length action"
    using prev len check_boundary_crossed_fields(12) [OF s1] check_laser_hit_fields(10) [OF s2]
    by (simp add: get_observation_fields split: option.splits)
  have way: "dict_get (snd (snd (compute_reward ?so (engine_after t) action (InfoOther h)
                                   (time_reward t)))) ''waypoint_reward'' = Some 0.3"
    using vo after po co by (rule compute_reward_waypoint)
  have latch: "boundary_crossed (fst (step s t action))"
    using veh len before after y by (rule step_sets_latch)
  have corner: "\<forall>u. u \<le> 0.5 \<longrightarrow> c1 (get_random_start_position 2 u) = 1.5"
    by (simp add: get_random_start_position_def c1_def)
  show ?thesis using latch way corner unfolding res by simp
qed

subsection \<open>The controller after a step that raises nowhere\<close>

lemma step_state:
  assumes veh: "vehicle (arena s) \<noteq> None" and len: "length action = 2"
    and before: "is_connected (engine_before t)" and after: "is_connected (engine_after t)"
  shows "\<exists>s1 s2 hit.
           check_boundary_crossed (s\<lparr> steps := steps s + 1, current_action := Some action \<rparr>)
             (engine_after t) = Inr s1
         \<and> check_laser_hit s1 (engine_after t) (time_hit t) = Inr (s2, hit)
         \<and> arena (fst (step s t action)) = arena s
         \<and> boundary_crossed (fst (step s t action)) = boundary_crossed s2
         \<and> laser_hit (fst (step s t action)) = laser_hit s2
         \<and> continuous_hit_start (fst (step s t action)) = continuous_hit_start s2
         \<and> opponent_id (fst (step s t action)) = opponent_id s
         \<and> opponent_position (fst (step s t action)) = opponent_position s
         \<and> history_length (fst (step s t action)) = history_length s
         \<and> lasers (fst (step s t action)) = lasers s
         \<and> previous_action (fst (step s t action)) = Some action
         \<and> observation_history (fst (step s t action))
             = observation_history (fst (get_observation s2 (engine_after t) (time_observation t)))
         \<and> observation_history s2 = observation_history s
         \<and> history_length s2 = history_length s
         \<and> arena s2 = arena s"
proof -
  let ?s0 = "s\<lparr> steps := steps s + 1, current_action := Some action \<rparr>"
  obtain v where v: "vehicle (arena s) = Some v" using veh by auto
  have len3: "length (map (\<lambda>x. x * 3.0) action) = 2" using len by simp
  obtain c where c: "vehicle_apply_action v (engine_before t) (map (\<lambda>x. x * 3.0) action) = Inr c"
    using vehicle_apply_action_ok [OF len3 before] by blast
  have veh0: "vehicle (arena ?s0) \<noteq> None" using veh by simp
  obtain s1 where s1: "check_boundary_crossed ?s0 (engine_after t) = Inr s1"
    using check_boundary_crossed_ok [OF veh0 after] by simp
  have veh1: "vehicle (arena s1) \<noteq> None"
    using check_boundary_crossed_fields(1) [OF s1] veh by simp
  obtain s2 hit where s2: "check_laser_hit s1 (engine_after t) (time_hit t) = Inr (s2, hit)"
    using check_laser_hit_ok [OF veh1 after] by blast
  have veh2: "vehicle (arena s2) \<noteq> None"
    using check_laser_hit_fields(1) [OF s2] veh1 by simp
  let ?o = "get_observation s2 (engine_after t) (time_observation t)"
  let ?r = "compute_reward (fst ?o) (engine_after t) action (InfoOther hit) (time_reward t)"
  let ?s5 = "(fst ?r)\<lparr> episode_reward := episode_reward (fst ?r) + fst (snd ?r),
                         previous_action := Some action,
                         episode_metrics := snd (snd ?r) \<rparr>"
  have term_eq: "is_terminated ?s5 (engine_after t) (time_terminated t)
                   = is_terminated s2 (engine_after t) (time_terminated t)"
    by (rule is_terminated_cong) (simp_all add: compute_reward_fields get_observation_fields)
  obtain fin where fin: "is_terminated s2 (engine_after t) (time_terminated t) = Inr fin"
    using is_terminated_ok [OF veh2 after] by blast
  have st: "fst (step s t action) = ?s5"
    using v c s1 s2 fin term_eq
    by (simp add: step_def Let_def case_prod_beta)
  have a2: "arena s2 = arena s"
    using check_laser_hit_fields(1) [OF s2] check_boundary_crossed_fields(1) [OF s1] by simp
  have o2: "opponent_id s2 = opponent_id s" "opponent_position s2 = opponent_position s"
      "history_length s2 = history_length s" "lasers s2 = lasers s"
      "observation_history s2 = observation_history s"
    using check_laser_hit_fields(5-9) [OF s2] check_boundary_crossed_fields(7-11) [OF s1]
    by simp_all
  show ?thesis
    using s1 s2 a2 o2 unfolding st
    by (simp add: compute_reward_fields get_observation_fields)
qed

subsection \<open>The sample run\<close>

lemma reset_first:
  assumes conn: "is_connected e"
    and hist: "observation_history s = None" and len: "history_length s = 4"
  shows "\<exists>f. length f = 40 \<and> f ! 16 = c0 (base_position e)
           \<and> observation_history (fst (reset s seed gen body e now)) = Some [f, f, f, f]"
proof -
  let ?s0 = "case seed of None \<Rightarrow> s | Some n \<Rightarrow> s\<lparr> np_random := gen n \<rparr>"
  let ?s1 = "?s0\<lparr> steps := 0, terminated := False, truncated := False, laser_hits_count := 0 \<rparr>"
  let ?pre = "rebuild_scene ?s1 body"
  have h: "observation_history ?pre = None"
    using hist by (simp add: rebuild_scene_fields split: option.splits)
  have l: "history_length ?pre = 4"
    using len by (simp add: rebuild_scene_fields split: option.splits)
  have v: "vehicle (arena ?pre) \<noteq> None" by (rule rebuild_scene_arena)
  from get_observation_first [OF v conn h l, of now]
  obtain f where "length f = 40" "f ! 16 = c0 (base_position e)"
      "observation_history (fst (get_observation ?pre e now)) = Some [f, f, f, f]"
    by blast
  moreover have "reset s seed gen body e now
                   = ((fst (get_observation ?pre e now))\<lparr> previous_action := None \<rparr>,
                      snd (get_observation ?pre e now))"
    using conn by (simp add: reset_def Let_def case_prod_beta reset_environment_def)
  ultimately show ?thesis by auto
qed

lemma engines_connected:
  "is_connected rest_engine" "is_connected moved_engine" "is_connected aiming_engine"
  "is_connected mine_engine" "is_connected south_engine"
  "is_connected (engine_before (example_tick e now))"
  "engine_after (example_tick e now) = e"
  by (simp_all add: rest_engine_def moved_engine_def aiming_engine_def mine_engine_def
      south_engine_def example_tick_def)

lemma fresh_env_facts:
  "vehicle (arena fresh_env) = None"
  "lasers fresh_env = 16"
  "history_length fresh_env = 4"
  "\<not> boundary_crossed fresh_env"
  "\<not> laser_hit fresh_env"
  "continuous_hit_start fresh_env = None"
  "observation_history fresh_env = None"
  "mine_height (arena fresh_env) = 0.001"
  by (simp_all add: fresh_env_def AdvancedLaserVehicleEnv_init_def CombatArena_init_def
      create_mines_def)

lemma started_env_facts:
  "vehicle (arena started_env) \<noteq> None"
  "arena_inv (arena started_env)"
  "arena_mine_positions (arena started_env) = default_mine_positions 0.001"
  "opponent_id started_env = Some 25"
  "opponent_position started_env \<noteq> None"
  "\<not> boundary_crossed started_env"
  "\<not> laser_hit started_env"
  "continuous_hit_start started_env = None"
  "previous_action started_env = None"
  "history_length started_env = 4"
  "lasers started_env = 16"
  unfolding started_env_def
  using reset_connected [OF engines_connected(1), of fresh_env "Some 7" example_generator
      example_body 0]
  by (simp_all add: reset_fields fresh_env_facts example_body_def)

lemma started_env_history:
  "\<exists>f. length f = 40 \<and> f ! 16 = 1.5 \<and> observation_history started_env = Some [f, f, f, f]"
  unfolding started_env_def
  using reset_first [OF engines_connected(1) fresh_env_facts(7) fresh_env_facts(3),
      of "Some 7" example_generator example_body 0]
  by (simp add: rest_engine_def c0_def)

lemma crossed_env_facts:
  "vehicle (arena crossed_env) \<noteq> None"
  "boundary_crossed crossed_env"
  "\<not> laser_hit crossed_env"
  "continuous_hit_start crossed_env = None"
  "opponent_id crossed_env = Some 25"
  "opponent_position crossed_env \<noteq> None"
  "history_length crossed_env = 4"
  "previous_action crossed_env = Some [1, 1]"
proof -
  let ?t = "example_tick moved_engine 1"
  have len: "length [1, 1 :: real] = 2" by simp
  have after: "is_connected (engine_after ?t)" by (simp add: engines_connected)
  from step_state [OF started_env_facts(1) len engines_connected(6) after]
  obtain s1 s2 hit where
      s1: "check_boundary_crossed
             (started_env\<lparr> steps := steps started_env + 1, current_action := Some [1, 1] \<rparr>)
             moved_engine = Inr s1"
      and s2: "check_laser_hit s1 moved_engine 1 = Inr (s2, hit)"
      and st: "arena crossed_env = arena started_env"
        "boundary_crossed crossed_env = boundary_crossed s2"
        "laser_hit crossed_env = laser_hit s2"
        "continuous_hit_start crossed_env = continuous_hit_start s2"
        "opponent_id crossed_env = opponent_id started_env"
        "opponent_position crossed_env = opponent_position started_env"
        "history_length crossed_env = history_length started_env"
        "previous_action crossed_env = Some [1, 1]"
    unfolding crossed_env_def by (auto simp add: example_tick_def)
  have s1_eq: "s1 = started_env\<lparr> steps := steps started_env + 1,
                                  current_action := Some [1, 1], boundary_crossed := True \<rparr>"
    using s1 started_env_facts(1,6)
    by (simp add: check_boundary_crossed_def and_then_def get_position_and_orientation_def
        moved_engine_def rest_engine_def c1_def split: option.splits)
  have s2_eq: "laser_hit s2 = False \<and> continuous_hit_start s2 = None \<and> boundary_crossed s2"
    using s2 started_env_facts(1,4,5)
    by (auto simp add: s1_eq check_laser_hit_def and_then_def get_position_and_orientation_def
        moved_engine_def rest_engine_def split: option.splits)
  show "vehicle (arena crossed_env) \<noteq> None" using st(1) started_env_facts(1) by simp
  show "boundary_crossed crossed_env" using st(2) s2_eq by simp
  show "\<not> laser_hit crossed_env" using st(3) s2_eq by simp
  show "continuous_hit_start crossed_env = None" using st(4) s2_eq by simp
  show "opponent_id crossed_env = Some 25" using st(5) started_env_facts(4) by simp
  show "opponent_position crossed_env \<noteq> None" using st(6) started_env_facts(5) by simp
  show "history_length crossed_env = 4" using st(7) started_env_facts(10) by simp
  show "previous_action crossed_env = Some [1, 1]" by (rule st(8))
qed

lemma crossed_env_history:
  "\<exists>f g. length f = 40 \<and> length g = 40 \<and> f ! 16 = 1.5 \<and> g ! 16 = 1.51
         \<and> observation_history crossed_env = Some [f, f, f, g]"
proof -
  let ?t = "example_tick moved_engine 1"
  have len: "length [1, 1 :: real] = 2" by simp
  have after: "is_connected (engine_after ?t)" by (simp add: engines_connected)
  from started_env_history obtain f where f: "length f = 40" "f ! 16 = 1.5"
      and h: "observation_history started_env = Some [f, f, f, f]" by blast
  from step_state [OF started_env_facts(1) len engines_connected(6) after]
  obtain s2 where
      st: "observation_history crossed_env
             = observation_history (fst (get_observation s2 moved_engine 1))"
      and h2: "observation_history s2 = observation_history started_env"
      and l2: "history_length s2 = history_length started_env"
      and a2: "arena s2 = arena started_env"
    unfolding crossed_env_def by (auto simp add: example_tick_def)
  have v2: "vehicle (arena s2) \<noteq> None" using a2 started_env_facts(1) by simp
  have h2': "observation_history s2 = Some [f, f, f, f]" using h2 h by simp
  have l2': "history_length s2 = 4" using l2 started_env_facts(10) by simp
  from get_observation_with_history [OF v2 engines_connected(2) h2' l2', of 1]
  obtain g where "length g = 40" "g ! 16 = c0 (base_position moved_engine)"
      "observation_history (fst (get_observation s2 moved_engine 1)) = Some [f, f, f, g]"
    by blast
  then show ?thesis
    using f st by (auto simp add: moved_engine_def rest_engine_def c0_def)
qed

lemma hitting_env_facts:
  "vehicle (arena hitting_env) \<noteq> None"
  "boundary_crossed hitting_env"
  "laser_hit hitting_env"
  "continuous_hit_start hitting_env = Some 2"
  "opponent_id hitting_env = Some 25"
  "opponent_position hitting_env \<noteq> None"
proof -
  let ?t = "example_tick aiming_engine 2"
  have len: "length [1, 1 :: real] = 2" by simp
  have after: "is_connected (engine_after ?t)" by (simp add: engines_connected)
  from step_state [OF crossed_env_facts(1) len engines_connected(6) after]
  obtain s1 s2 hit where
      s1: "check_boundary_crossed
             (crossed_env\<lparr> steps := steps crossed_env + 1, current_action := Some [1, 1] \<rparr>)
             aiming_engine = Inr s1"
      and s2: "check_laser_hit s1 aiming_engine 2 = Inr (s2, hit)"
      and st: "arena hitting_env = arena crossed_env"
        "boundary_crossed hitting_env = boundary_crossed s2"
        "laser_hit hitting_env = laser_hit s2"
        "continuous_hit_start hitting_env = continuous_hit_start s2"
        "opponent_id hitting_env = opponent_id crossed_env"
        "opponent_position hitting_env = opponent_position crossed_env"
    unfolding hitting_env_def by (auto simp add: example_tick_def)
  have s1_eq: "s1 = crossed_env\<lparr> steps := steps crossed_env + 1, current_action := Some [1, 1] \<rparr>"
    using s1 crossed_env_facts(1,2)
    by (simp add: check_boundary_crossed_def and_then_def get_position_and_orientation_def
        aiming_engine_def moved_engine_def rest_engine_def split: option.splits)
  have s2_eq: "laser_hit s2 \<and> continuous_hit_start s2 = Some 2 \<and> boundary_crossed s2"
    using s2 crossed_env_facts(1,2,3,5,6)
    by (auto simp add: s1_eq check_laser_hit_def and_then_def get_position_and_orientation_def
        aiming_engine_def moved_engine_def rest_engine_def split: option.splits)
  show "vehicle (arena hitting_env) \<noteq> None" using st(1) crossed_env_facts(1) by simp
  show "boundary_crossed hitting_env" using st(2) s2_eq by simp
  show "laser_hit hitting_env" using st(3) s2_eq by simp
  show "continuous_hit_start hitting_env = Some 2" using st(4) s2_eq by simp
  show "opponent_id hitting_env = Some 25" using st(5) crossed_env_facts(5) by simp
  show "opponent_position hitting_env \<noteq> None" using st(6) crossed_env_facts(6) by simp
qed

subsection \<open>The claims on the sample run\<close>

theorem reward_gate_closed_witness:
  "\<not> boundary_crossed started_env
   \<and> dict_get (snd (snd (compute_reward started_env rest_engine [1, 1]
                           (InfoDict [(''laser_hit'', True)]) 1))) ''distance_reward'' = Some 0
   \<and> dict_get (snd (snd (compute_reward started_env rest_engine [1, 1]
                           (InfoDict [(''laser_hit'', True)]) 1))) ''rotation_reward'' = Some 0"
  using reward_gate_closed [of started_env rest_engine "[1, 1]" "InfoDict [(''laser_hit'', True)]" 1]
    started_env_facts(6)
  by simp

theorem step_victory_without_bonus_witness:
  "laser_hit hitting_env \<and> continuous_hit_start hitting_env = Some 2
   \<and> time_reward (example_tick aiming_engine 5) - 2 \<ge> 2
   \<and> (\<exists>res. snd (step hitting_env (example_tick aiming_engine 5) [1, 1]) = Inr res
          \<and> terminated_flag res
          \<and> dict_get (reward_components res) ''goal_reward'' \<noteq> Some 50)"
proof -
  have len: "length [1, 1 :: real] = 2" by simp
  have after: "is_connected (engine_after (example_tick aiming_engine 5))"
    by (simp add: engines_connected)
  have opp: "opponent_id hitting_env = Some (forward_ray (engine_after (example_tick aiming_engine 5)))"
    by (simp add: hitting_env_facts example_tick_def aiming_engine_def)
  have ray: "forward_ray (engine_after (example_tick aiming_engine 5)) \<noteq> - 1"
    by (simp add: example_tick_def aiming_engine_def)
  have dur: "time_reward (example_tick aiming_engine 5) - 2 \<ge> 2"
      "time_terminated (example_tick aiming_engine 5) - 2 \<ge> 2"
    by (simp_all add: example_tick_def)
  from step_victory_without_bonus [OF hitting_env_facts(1) len engines_connected(6) after
      hitting_env_facts(2) hitting_env_facts(3) hitting_env_facts(4) opp ray
      hitting_env_facts(6) dur]
  show ?thesis using hitting_env_facts(3,4) dur(1) by blast
qed

theorem mine_contact_penalty_and_termination_witness:
  "planar_distance (c0 (base_position mine_engine) - 1) (c1 (base_position mine_engine) - 0)
     < 0.075 + 0.15
   \<and> dict_get (snd (snd (compute_reward started_env mine_engine [1, 1] (InfoOther False) 1)))
       ''mine_penalty'' = Some (- 15)
   \<and> is_terminated started_env mine_engine 1 = Inr True"
proof -
  have mine: "(1, 0, 0.001 / 2) \<in> set (arena_mine_positions (arena started_env))"
    by (simp add: started_env_facts default_mine_positions_def)
  have "(0.1 :: real) * 0.1 + 0.1 * 0.1 < (0.075 + 0.15)\<^sup>2" by (simp add: power2_eq_square)
  then have "sqrt ((0.1 :: real) * 0.1 + 0.1 * 0.1) < 0.075 + 0.15"
    by (intro real_less_lsqrt) simp_all
  then have contact: "planar_distance (c0 (base_position mine_engine) - c0 (1, 0, 0.001 / 2))
                        (c1 (base_position mine_engine) - c1 (1, 0, 0.001 / 2)) < 0.075 + 0.15"
    by (simp add: planar_distance_def mine_engine_def rest_engine_def c0_def c1_def)
  have prev: "case previous_action started_env of None \<Rightarrow> True
              | Some prev \<Rightarrow> length prev = length [1, 1 :: real]"
    by (simp add: started_env_facts)
  from mine_contact_penalty_and_termination [OF started_env_facts(1) engines_connected(4)
      started_env_facts(2) mine contact prev, of "InfoOther False" 1 1]
  show ?thesis using contact by (simp add: c0_def c1_def)
qed

theorem latch_is_one_way_witness:
  "boundary_crossed crossed_env
   \<and> c1 (base_position south_engine) < 0
   \<and> boundary_crossed (run_steps crossed_env
        [(example_tick south_engine 2, [1, 1]), (example_tick south_engine 3, [0, - 1])])"
proof -
  have "c1 (base_position south_engine) < 0"
    by (simp add: south_engine_def rest_engine_def c1_def)
  moreover have "boundary_crossed (run_steps crossed_env
        [(example_tick south_engine 2, [1, 1]), (example_tick south_engine 3, [0, - 1])])"
    using crossed_env_facts(2) by (rule latch_is_one_way)
  ultimately show ?thesis using crossed_env_facts(2) by blast
qed

theorem reset_keeps_boundary_latch_witness:
  "boundary_crossed crossed_env
   \<and> steps (fst (reset crossed_env (Some 7) example_generator example_body rest_engine 10)) = 0
   \<and> boundary_crossed
       (fst (reset crossed_env (Some 7) example_generator example_body rest_engine 10))"
  using reset_keeps_boundary_latch [OF crossed_env_facts(2)] crossed_env_facts(2)
  by simp

theorem reset_twice_observations_differ_witness:
  "snd (reset crossed_env (Some 7) example_generator example_body rest_engine 10)
     \<noteq> snd (reset (fst (reset crossed_env (Some 7) example_generator example_body rest_engine 10))
              (Some 7) example_generator example_body rest_engine 11)"
proof -
  from crossed_env_history obtain f g where
      f: "length f = 40" "f ! 16 = 1.5" and g: "length g = 40" "g ! 16 = 1.51"
      and h: "observation_history crossed_env = Some [f, f, f, g]"
    by blast
  have sizes: "length f = length f" "length f = length g" using f g by simp_all
  have "f \<noteq> g" using f(2) g(2) by auto
  then have differ: "f \<noteq> f \<or> f \<noteq> g" by simp
  show ?thesis
    by (rule reset_twice_observations_differ [OF engines_connected(1) h crossed_env_facts(7)
          sizes differ])
qed

theorem observation_failure_gives_zero_vector_witness:
  "vehicle (arena fresh_env) = None
   \<and> get_observation fresh_env rest_engine 0 = (fresh_env, replicate 160 0)"
  using observation_failure_gives_zero_vector [of fresh_env rest_engine 0]
  by (simp add: fresh_env_facts)

theorem latch_set_by_positive_y_witness:
  "\<not> boundary_crossed started_env
   \<and> c1 (get_random_start_position 2 (example_generator 7 0)) = 1.5
   \<and> boundary_crossed (fst (step started_env (example_tick moved_engine 1) [1, 1]))
   \<and> (\<exists>res. snd (step started_env (example_tick moved_engine 1) [1, 1]) = Inr res
          \<and> dict_get (reward_components res) ''waypoint_reward'' = Some 0.3)"
proof -
  have len: "length [1, 1 :: real] = 2" by simp
  have after: "is_connected (engine_after (example_tick moved_engine 1))"
    by (simp add: engines_connected)
  have y: "c1 (base_position (engine_after (example_tick moved_engine 1))) > 0"
    by (simp add: example_tick_def moved_engine_def rest_engine_def c1_def)
  have prev: "case previous_action started_env of None \<Rightarrow> True | Some prev \<Rightarrow> length prev = 2"
    by (simp add: started_env_facts)
  have draw: "example_generator 7 0 \<le> 0.5" by (simp add: example_generator_def)
  from latch_set_by_positive_y [OF started_env_facts(1) len engines_connected(6) after y prev]
  show ?thesis using started_env_facts(6) draw by blast
qed

subsection \<open>Mines outside the tested radius\<close>

lemma planar_distance_axis:
  "planar_distance dx 0 = \<bar>dx\<bar>" "planar_distance 0 dy = \<bar>dy\<bar>"
  by (simp_all add: planar_distance_def)

lemma planar_distance_far:
  assumes "0.49 \<le> dx * dx + dy * dy"
  shows "0.7 \<le> planar_distance dx dy"
proof -
  have "(0.7 :: real)\<^sup>2 \<le> dx * dx + dy * dy" using assms by (simp add: power2_eq_square)
  then show ?thesis unfolding planar_distance_def by (rule real_le_rsqrt)
qed

text \<open>The mine entry of a reward computation in which nothing raises.\<close>

lemma compute_reward_mine_penalty:
  assumes veh: "vehicle (arena s) \<noteq> None" and conn: "is_connected e"
    and prev: "case previous_action s of None \<Rightarrow> True | Some prev \<Rightarrow> length prev = length action"
  shows "dict_get (snd (snd (compute_reward s e action info now))) ''mine_penalty''
           = Some (mine_penalty_loop (base_position e) (arena_mine_positions (arena s)) 0)"
proof -
  obtain v where v: "vehicle (arena s) = Some v" using veh by auto
  from compute_reward_normal [OF v conn prev, of info now]
  obtain rc rc' where
      sm: "reward_smooth (s\<lparr> current_position := Some (base_position e) \<rparr>) action rc = Inr rc'"
      and rc: "dict_get rc ''mine_penalty''
                 = dict_get (reward_mines (arena s) (base_position e)
                     (reward_out_of_bounds (arena s) (base_position e) initial_components))
                     ''mine_penalty''"
      and res: "dict_get (snd (snd (compute_reward s e action info now))) ''mine_penalty''
                  = dict_get rc' ''mine_penalty''"
    by (auto simp add: mine_blocks Let_def)
  have iv: "dict_val initial_components ''mine_penalty'' = 0"
    by (simp add: dict_val_def initial_components_def)
  have "dict_val (reward_out_of_bounds (arena s) (base_position e) initial_components)
          ''mine_penalty'' = 0"
    by (simp add: reward_out_of_bounds_def dict_val_set iv)
  then have "dict_get (reward_mines (arena s) (base_position e)
           (reward_out_of_bounds (arena s) (base_position e) initial_components)) ''mine_penalty''
          = Some (mine_penalty_loop (base_position e) (arena_mine_positions (arena s)) 0)"
    by (simp add: reward_mines_def dict_get_set)
  then show ?thesis using res rc mine_smooth [OF sm] by simp
qed

lemma get_observation_mine_positions:
  "mine_positions (fst (get_observation s e now)) = mine_positions s"
  by (simp add: get_observation_def Let_def split: option.splits sum.splits)

lemma started_env_mines:
  "mine_positions started_env = replicate 4 (- 1, - 1, 0.05)"
  "mine_radius (arena started_env) = 0.5"
proof -
  let ?s1 = "fresh_env\<lparr> np_random := example_generator 7, steps := 0, terminated := False,
                         truncated := False, laser_hits_count := 0 \<rparr>"
  have r: "started_env = (fst (get_observation (rebuild_scene ?s1 example_body) rest_engine 0))
                           \<lparr> previous_action := None \<rparr>"
    unfolding started_env_def
    by (simp add: reset_def Let_def case_prod_beta reset_environment_def engines_connected)
  have d: "difficulty ?s1 = 0.5"
    by (simp add: fresh_env_def AdvancedLaserVehicleEnv_init_def clip_def)
  have n: "nat (py_int 4) = 4" by (simp add: py_int_def)
  show "mine_positions started_env = replicate 4 (- 1, - 1, 0.05)"
    unfolding r
    by (simp add: get_observation_mine_positions rebuild_scene_mines d n example_generator_def
        np_uniform_def numeral_eq_Suc)
  show "mine_radius (arena started_env) = 0.5"
    unfolding r
    by (simp add: get_observation_fields rebuild_scene_def Let_def case_prod_beta
        spawn_vehicle_def arena_reset_def create_mines_def fresh_env_def
        AdvancedLaserVehicleEnv_init_def CombatArena_init_def split: option.splits)
qed

lemma is_terminated_no_reason:
  assumes veh: "vehicle (arena s) \<noteq> None" and conn: "is_connected e"
    and still: "contact_points e = 0" and nohit: "continuous_hit_start s = None"
    and inside: "\<bar>c0 (base_position e)\<bar> \<le> 3.5" "\<bar>c1 (base_position e)\<bar> \<le> 3.5"
    and clear: "\<not> list_ex (\<lambda>mine_pos.
                   planar_distance (c0 (base_position e) - c0 mine_pos)
                     (c1 (base_position e) - c1 mine_pos) < 0.075 + 0.15)
                 (arena_mine_positions (arena s))"
  shows "is_terminated s e now = Inr False"
  using assms
  by (auto simp add: is_terminated_def and_then_def check_collision_def
      get_position_and_orientation_def)

text \<open>
  Claim C3 as written fails on the code in two ways. The contact radius the code tests
  is 0.075 + 0.15 = 0.225, not the arena's \<open>mine_radius\<close> 0.5 plus half the vehicle
  width 0.075: at 0.4 from the centre of the arena's right mine the mine entry is the
  avoidance reward 0.05 and the episode goes on. And the mines the controller draws at
  reset are not among the arena's mines: standing on one of them, the mine entry is 0
  and the episode goes on.
\<close>

theorem mine_contact_radius_counterexample:
  "(1, 0, 0.001 / 2) \<in> set (arena_mine_positions (arena started_env))
   \<and> planar_distance (c0 (base_position near_mine_engine) - 1)
         (c1 (base_position near_mine_engine) - 0)
       < mine_radius (arena started_env) + 0.15 / 2
   \<and> dict_get (snd (snd (compute_reward started_env near_mine_engine [1, 1] (InfoOther False) 1)))
       ''mine_penalty'' = Some 0.05
   \<and> is_terminated started_env near_mine_engine 1 = Inr False
   \<and> (- 1, - 1, 0.05) \<in> set (mine_positions started_env)
   \<and> planar_distance (c0 (base_position drawn_mine_engine) - (- 1))
         (c1 (base_position drawn_mine_engine) - (- 1)) = 0
   \<and> dict_get (snd (snd (compute_reward started_env drawn_mine_engine [1, 1] (InfoOther False) 1)))
       ''mine_penalty'' = Some 0
   \<and> is_terminated started_env drawn_mine_engine 1 = Inr False"
proof -
  have prev: "case previous_action started_env of None \<Rightarrow> True
              | Some prev \<Rightarrow> length prev = length [1, 1 :: real]"
    by (simp add: started_env_facts)
  have conn: "is_connected near_mine_engine" "is_connected drawn_mine_engine"
    by (simp_all add: near_mine_engine_def drawn_mine_engine_def rest_engine_def)
  have far: "0.7 \<le> planar_distance (- 1) (- 1)" "0.7 \<le> planar_distance (- 2) (- 1)"
    by (rule planar_distance_far, simp)+
  have loop_near: "mine_penalty_loop (base_position near_mine_engine)
                     (arena_mine_positions (arena started_env)) 0 = 0.05"
    by (simp add: started_env_facts default_mine_positions_def near_mine_engine_def
        rest_engine_def c0_def c1_def Let_def planar_distance_axis)
  have loop_drawn: "mine_penalty_loop (base_position drawn_mine_engine)
                      (arena_mine_positions (arena started_env)) 0 = 0"
    using far
    by (simp add: started_env_facts default_mine_positions_def drawn_mine_engine_def
        rest_engine_def c0_def c1_def Let_def planar_distance_axis)
  have clear_near: "\<not> list_ex (\<lambda>mine_pos.
                   planar_distance (c0 (base_position near_mine_engine) - c0 mine_pos)
                     (c1 (base_position near_mine_engine) - c1 mine_pos) < 0.075 + 0.15)
                 (arena_mine_positions (arena started_env))"
    by (simp add: started_env_facts default_mine_positions_def near_mine_engine_def
        rest_engine_def c0_def c1_def planar_distance_axis)
  have clear_drawn: "\<not> list_ex (\<lambda>mine_pos.
                   planar_distance (c0 (base_position drawn_mine_engine) - c0 mine_pos)
                     (c1 (base_position drawn_mine_engine) - c1 mine_pos) < 0.075 + 0.15)
                 (arena_mine_positions (arena started_env))"
    using far
    by (simp add: started_env_facts default_mine_positions_def drawn_mine_engine_def
        rest_engine_def c0_def c1_def planar_distance_axis)
  have t_near: "is_terminated started_env near_mine_engine 1 = Inr False"
    by (rule is_terminated_no_reason [OF started_env_facts(1) conn(1) _ started_env_facts(8)
          _ _ clear_near])
       (simp_all add: near_mine_engine_def rest_engine_def c0_def c1_def)
  have t_drawn: "is_terminated started_env drawn_mine_engine 1 = Inr False"
    by (rule is_terminated_no_reason [OF started_env_facts(1) conn(2) _ started_env_facts(8)
          _ _ clear_drawn])
       (simp_all add: drawn_mine_engine_def rest_engine_def c0_def c1_def)
  have p_near: "dict_get (snd (snd (compute_reward started_env near_mine_engine [1, 1]
                   (InfoOther False) 1))) ''mine_penalty'' = Some 0.05"
    using compute_reward_mine_penalty [OF started_env_facts(1) conn(1) prev, of "InfoOther False" 1]
    by (simp add: loop_near)
  have p_drawn: "dict_get (snd (snd (compute_reward started_env drawn_mine_engine [1, 1]
                   (InfoOther False) 1))) ''mine_penalty'' = Some 0"
    using compute_reward_mine_penalty [OF started_env_facts(1) conn(2) prev, of "InfoOther False" 1]
    by (simp add: loop_drawn)
  have m_arena: "(1, 0, 0.001 / 2) \<in> set (arena_mine_positions (arena started_env))"
    by (simp add: started_env_facts default_mine_positions_def)
  have m_drawn: "(- 1, - 1, 0.05) \<in> set (mine_positions started_env)"
    by (simp add: started_env_mines)
  have d_near: "planar_distance (c0 (base_position near_mine_engine) - 1)
                  (c1 (base_position near_mine_engine) - 0)
                < mine_radius (arena started_env) + 0.15 / 2"
    by (simp add: started_env_mines near_mine_engine_def rest_engine_def c0_def c1_def
        planar_distance_axis)
  have d_drawn: "planar_distance (c0 (base_position drawn_mine_engine) - (- 1))
                   (c1 (base_position drawn_mine_engine) - (- 1)) = 0"
    by (simp add: drawn_mine_engine_def rest_engine_def c0_def c1_def planar_distance_axis)
  show ?thesis
    using m_arena d_near p_near t_near m_drawn d_drawn p_drawn t_drawn by blast
qed

end
